theory Spec2Isabelle
  imports Complex_Main
begin

section \<open>Autoencoder communications link: channel model and BER sweep\<close>

text \<open>
  A shallow embedding of \<^verbatim>\<open>src/autoencoder.py\<close>. Python floats are modelled as
  \<^typ>\<open>real\<close> (rounding of the binary floating-point format is not represented),
  numpy arrays of rank one as lists and of rank two as lists of rows. The module-level
  constants of the script are the fields of a configuration record, so that statements
  quantify over them; \<open>source_config\<close> holds the values the script is written with.
\<close>

subsection \<open>Hyperparameters and constants (lines 33--48, 198--199)\<close>

type_synonym vector = "real list"
type_synonym matrix = "real list list"

record config =
  M :: nat
  num_channels :: nat
  Eb_No_dB :: real
  size_train_data :: int
  size_val_data :: int
  size_test_data :: int
  start :: int
  end_dB :: int

definition source_config :: config where
  "source_config =
     \<lparr>M = 16, num_channels = 2, Eb_No_dB = 7,
      size_train_data = 50000, size_val_data = 5000, size_test_data = 50000,
      start = - 15, end_dB = 15\<rparr>"

text \<open>A second configuration, small enough to evaluate the model on by hand.\<close>

definition small_config :: config where
  "small_config =
     \<lparr>M = 2, num_channels = 1, Eb_No_dB = 0,
      size_train_data = 2, size_val_data = 1, size_test_data = 2,
      start = 0, end_dB = 1\<rparr>"

text \<open>
  A third one, with as many channels as messages: its rate is \<open>1 / 2\<close>, so that
  \<open>beta_variance\<close> and the noise deviation at 0 dB are both 1.
\<close>

definition unit_config :: config where
  "unit_config =
     \<lparr>M = 2, num_channels = 2, Eb_No_dB = 0,
      size_train_data = 2, size_val_data = 1, size_test_data = 2,
      start = 0, end_dB = 1\<rparr>"

text \<open>
  \<^verbatim>\<open>k = int(np.log2(M))\<close>: \<open>int\<close> truncates towards zero, which is the floor for
  \<open>M \<ge> 1\<close> (for \<open>M = 0\<close> the script stops with OverflowError at import; the
  definitions below are meant for \<open>M \<ge> 1\<close> and \<open>num_channels \<ge> 1\<close>).
\<close>

definition k :: "config \<Rightarrow> int" where
  "k cfg = \<lfloor>log 2 (real (M cfg))\<rfloor>"

definition R :: "config \<Rightarrow> real" where
  "R cfg = real_of_int (k cfg) / real (num_channels cfg)"

definition Eb_No :: "config \<Rightarrow> real" where
  "Eb_No cfg = 10 powr (Eb_No_dB cfg / 10)"

definition beta_variance :: "config \<Rightarrow> real" where
  "beta_variance cfg = 1 / (2 * R cfg * Eb_No cfg)"

text \<open>
  The constants are finite positive reals exactly for the configurations below: with
  \<open>M = 1\<close> the rate \<open>R\<close> is zero and the script's \<open>beta_variance\<close> is infinite,
  with \<open>num_channels = 0\<close> the division for \<open>R\<close> raises.
\<close>

definition valid_config :: "config \<Rightarrow> bool" where
  "valid_config cfg \<longleftrightarrow> 2 \<le> M cfg \<and> 1 \<le> num_channels cfg"

subsection \<open>Errors and the random generator\<close>

text \<open>
  The exceptions the modelled code can raise: numpy's ValueError (operands that cannot
  be broadcast together, a negative dimension or sample count, a negative scale, an
  empty range for \<^verbatim>\<open>randint\<close>) and IndexError for a subscript out of range.
\<close>

datatype error = ValueError | IndexError

text \<open>
  \<^verbatim>\<open>np.random\<close> is one process-wide generator that every draw advances. Its
  state is modelled as three tapes of variates with a read position each: unit-scale
  Rayleigh variates, standard normal variates, and integers. A draw reads the next
  cells of its tape and moves the position past them, so no cell is read twice. The
  Rayleigh distribution is a scale family: a sample with scale \<open>s\<close> is \<open>s\<close> times a
  unit-scale variate. An integer below \<open>high\<close> is a tape cell reduced modulo \<open>high\<close>.
\<close>

record rng =
  rayleigh_src :: "nat \<Rightarrow> real"
  rayleigh_pos :: nat
  randn_src :: "nat \<Rightarrow> real"
  randn_pos :: nat
  randint_src :: "nat \<Rightarrow> nat"
  randint_pos :: nat

definition np_random_rayleigh :: "real \<Rightarrow> nat \<Rightarrow> rng \<Rightarrow> error + (vector \<times> rng)" where
  "np_random_rayleigh scale n g =
     (if scale < 0 then Inl ValueError
      else Inr (map (\<lambda>i. scale * rayleigh_src g (rayleigh_pos g + i)) [0..<n],
                g\<lparr>rayleigh_pos := rayleigh_pos g + n\<rparr>))"

text \<open>A \<open>d0 \<times> d1\<close> array of standard normal variates, filled row by row.\<close>

definition standard_normal :: "nat \<Rightarrow> nat \<Rightarrow> rng \<Rightarrow> matrix \<times> rng" where
  "standard_normal d0 d1 g =
     (map (\<lambda>r. map (\<lambda>c. randn_src g (randn_pos g + r * d1 + c)) [0..<d1]) [0..<d0],
      g\<lparr>randn_pos := randn_pos g + d0 * d1\<rparr>)"

definition np_random_randn :: "int \<Rightarrow> nat \<Rightarrow> rng \<Rightarrow> error + (matrix \<times> rng)" where
  "np_random_randn d0 d1 g =
     (if d0 < 0 then Inl ValueError else Inr (standard_normal (nat d0) d1 g))"

definition np_random_randint :: "nat \<Rightarrow> rng \<Rightarrow> error + (nat \<times> rng)" where
  "np_random_randint high g =
     (if high = 0 then Inl ValueError
      else Inr (randint_src g (randint_pos g) mod high,
                g\<lparr>randint_pos := randint_pos g + 1\<rparr>))"

text \<open>
  Two generator states for evaluating the model on concrete inputs: one whose tapes
  are constant, one whose cell \<open>i\<close> holds \<open>i\<close> on every tape.
\<close>

definition const_rng :: "real \<Rightarrow> real \<Rightarrow> nat \<Rightarrow> rng" where
  "const_rng a b i =
     \<lparr>rayleigh_src = (\<lambda>_. a), rayleigh_pos = 0, randn_src = (\<lambda>_. b), randn_pos = 0,
      randint_src = (\<lambda>_. i), randint_pos = 0\<rparr>"

definition ramp_rng :: rng where
  "ramp_rng =
     \<lparr>rayleigh_src = real, rayleigh_pos = 0, randn_src = real, randn_pos = 0,
      randint_src = (\<lambda>i. i), randint_pos = 0\<rparr>"

text \<open>
  A generator state whose Rayleigh tape is constant and whose normal tape starts with
  the listed variates (and continues with zeros).
\<close>

definition tape_rng :: "real \<Rightarrow> real list \<Rightarrow> rng" where
  "tape_rng a zs =
     \<lparr>rayleigh_src = (\<lambda>_. a), rayleigh_pos = 0,
      randn_src = (\<lambda>i. if i < length zs then zs ! i else 0), randn_pos = 0,
      randint_src = (\<lambda>_. 0), randint_pos = 0\<rparr>"

subsection \<open>Array operations\<close>

definition np_zeros :: "nat \<Rightarrow> vector" where
  "np_zeros n = replicate n 0"

text \<open>
  numpy's broadcasting of two dimensions: equal, or one of them is 1 and is stretched.
\<close>

definition broadcast_dim :: "nat \<Rightarrow> nat \<Rightarrow> nat option" where
  "broadcast_dim a b =
     (if a = b then Some a else if a = 1 then Some b else if b = 1 then Some a else None)"

definition stretch :: "nat \<Rightarrow> 'a list \<Rightarrow> 'a list" where
  "stretch n xs = (if length xs = n then xs else replicate n (hd xs))"

text \<open>
  An element-wise binary operation on two rank-two arrays. A rank-one operand \<open>v\<close> is
  passed as the one-row array \<open>[v]\<close>, which is how numpy aligns it. An array with no
  rows does not record its column count here, so with such an operand only the row
  dimensions are compared.
\<close>

definition np_broadcast2 ::
  "('a \<Rightarrow> 'b \<Rightarrow> 'c) \<Rightarrow> 'a list list \<Rightarrow> 'b list list \<Rightarrow> error + 'c list list" where
  "np_broadcast2 f a b =
     (case broadcast_dim (length a) (length b) of
        None \<Rightarrow> Inl ValueError
      | Some r \<Rightarrow>
          if a = [] \<or> b = [] then Inr []
          else
            (case broadcast_dim (length (hd a)) (length (hd b)) of
               None \<Rightarrow> Inl ValueError
             | Some c \<Rightarrow>
                 Inr (map2 (\<lambda>ra rb. map2 f (stretch c ra) (stretch c rb))
                        (stretch r a) (stretch r b))))"

text \<open>
  \<^verbatim>\<open>np.linspace(start, stop, num)\<close> with the end point included: a negative
  \<open>num\<close> raises; otherwise \<open>div = num - 1\<close> and the samples are \<open>start + i * step\<close>
  with \<open>step = (stop - start) / div\<close> when \<open>div > 0\<close>.
\<close>

definition np_linspace :: "real \<Rightarrow> real \<Rightarrow> int \<Rightarrow> error + vector" where
  "np_linspace a b num =
     (if num < 0 then Inl ValueError
      else let n = nat num in
        if 1 < n then Inr (map (\<lambda>i. a + real i * ((b - a) / real (n - 1))) [0..<n])
        else Inr (replicate n a))"

text \<open>\<^verbatim>\<open>np.round\<close> rounds to the nearest integer and a tie to the even neighbour.\<close>

definition np_round :: "real \<Rightarrow> real" where
  "np_round x =
     (let f = \<lfloor>x\<rfloor>; d = x - real_of_int f in
      if d < 1 / 2 then real_of_int f
      else if 1 / 2 < d then real_of_int (f + 1)
      else if even f then real_of_int f else real_of_int (f + 1))"

text \<open>
  \<^verbatim>\<open>np.mean\<close> of a Boolean array: the fraction of \<open>True\<close> entries. Of an empty
  array it is \<open>nan\<close>, modelled as \<open>None\<close>.
\<close>

definition np_mean :: "bool list list \<Rightarrow> real option" where
  "np_mean errors =
     (let flat = concat errors in
      if flat = [] then None
      else Some (real (length (filter (\<lambda>e. e) flat)) / real (length flat)))"

subsection \<open>Message source (lines 52--62)\<close>

text \<open>
  The loop \<^verbatim>\<open>for i in range(size)\<close> runs \<open>nat size\<close> times (not at all for
  \<open>size \<le> 0\<close>); \<open>data\<close> is the accumulated list of rows.
\<close>

fun create_rows :: "config \<Rightarrow> nat \<Rightarrow> matrix \<Rightarrow> rng \<Rightarrow> error + (matrix \<times> rng)" where
  "create_rows cfg 0 data g = Inr (data, g)"
| "create_rows cfg (Suc n) data g =
     (let row = np_zeros (M cfg) in
      case np_random_randint (M cfg) g of
        Inl e \<Rightarrow> Inl e
      | Inr (idx, g') \<Rightarrow> create_rows cfg n (data @ [row[idx := 1]]) g')"

definition create_data_set :: "config \<Rightarrow> int \<Rightarrow> rng \<Rightarrow> error + (matrix \<times> rng)" where
  "create_data_set cfg size' g = create_rows cfg (nat size') [] g"

subsection \<open>Training-time channel (lines 67--74, 118--126)\<close>

text \<open>
  \<open>rayleigh\<close> is the function the \<^verbatim>\<open>Lambda\<close> layer wraps, as a function on a batch
  \<open>x\<close> of channel symbol vectors (one row per sample): line 68 draws and forms \<open>f\<close>,
  line 69 multiplies \<open>x\<close> by \<open>1 - f\<close>. Both products broadcast.
\<close>

definition rayleigh :: "config \<Rightarrow> matrix \<Rightarrow> rng \<Rightarrow> error + (matrix \<times> rng)" where
  "rayleigh cfg x g =
     (case np_random_rayleigh (beta_variance cfg) (num_channels cfg) g of
        Inl e \<Rightarrow> Inl e
      | Inr (draw, g') \<Rightarrow>
          (case np_broadcast2 (*) x [draw] of
             Inl e \<Rightarrow> Inl e
           | Inr f \<Rightarrow>
               (case np_broadcast2 (*) x (map (map (\<lambda>v. 1 - v)) f) of
                  Inl e \<Rightarrow> Inl e
                | Inr x' \<Rightarrow> Inr (x', g'))))"

text \<open>
  The fading stage as the specification words it, for comparison with \<open>rayleigh\<close>:
  a draw of length \<open>num_channels\<close> with scale \<open>sqrt beta_variance\<close>, and the signal
  multiplied by one minus the drawn vector.
\<close>

definition rayleigh_spec :: "config \<Rightarrow> matrix \<Rightarrow> rng \<Rightarrow> error + (matrix \<times> rng)" where
  "rayleigh_spec cfg x g =
     (case np_random_rayleigh (sqrt (beta_variance cfg)) (num_channels cfg) g of
        Inl e \<Rightarrow> Inl e
      | Inr (fading, g') \<Rightarrow>
          (case np_broadcast2 (*) x [map (\<lambda>v. 1 - v) fading] of
             Inl e \<Rightarrow> Inl e
           | Inr x' \<Rightarrow> Inr (x', g')))"

definition rayleigh_shape :: "'s \<Rightarrow> 's" where
  "rayleigh_shape input_shape = input_shape"

text \<open>
  The framework's \<^verbatim>\<open>GaussianNoise(stddev)\<close> layer in training mode: it adds to its
  input a zero-mean normal sample of the input's own shape.
\<close>

definition GaussianNoise :: "real \<Rightarrow> matrix \<Rightarrow> rng \<Rightarrow> matrix \<times> rng" where
  "GaussianNoise stddev x g =
     (case standard_normal (length x) (if x = [] then 0 else length (hd x)) g of
        (z, g') \<Rightarrow> (map2 (map2 (\<lambda>xv zv. xv + stddev * zv)) x z, g'))"

definition channel_layers :: "config \<Rightarrow> matrix \<Rightarrow> rng \<Rightarrow> error + (matrix \<times> rng)" where
  "channel_layers cfg x g =
     (case rayleigh cfg x g of
        Inl e \<Rightarrow> Inl e
      | Inr (y, g') \<Rightarrow> Inr (GaussianNoise (sqrt (beta_variance cfg)) y g'))"

subsection \<open>Evaluation sweep (lines 198--226)\<close>

text \<open>Lines 213--221 of the loop body: fading, then noise, for the linear \<open>snr\<close>.\<close>

definition eval_channel :: "config \<Rightarrow> real \<Rightarrow> matrix \<Rightarrow> rng \<Rightarrow> error + (matrix \<times> rng)" where
  "eval_channel cfg snr signal g =
     (case np_random_rayleigh (beta_variance cfg) (M cfg) g of
        Inl e \<Rightarrow> Inl e
      | Inr (fading, g1) \<Rightarrow>
          (case np_broadcast2 (*) signal [map (\<lambda>v. 1 - v) fading] of
             Inl e \<Rightarrow> Inl e
           | Inr signal1 \<Rightarrow>
               let mean_noise = 0; std_noise = sqrt (1 / (2 * R cfg * snr)) in
               (case np_random_randn (size_test_data cfg) (M cfg) g1 of
                  Inl e \<Rightarrow> Inl e
                | Inr (z, g2) \<Rightarrow>
                    let noise = map (map (\<lambda>v. mean_noise + std_noise * v)) z in
                    (case np_broadcast2 (+) signal1 noise of
                       Inl e \<Rightarrow> Inl e
                     | Inr signal2 \<Rightarrow> Inr (signal2, g2)))))"

text \<open>
  One pass of the loop body (lines 205--226). \<open>predict\<close> is the trained network's
  forward pass \<^verbatim>\<open>autoencoder.predict\<close>, a parameter of the model.
\<close>

definition eval_point ::
  "config \<Rightarrow> (matrix \<Rightarrow> matrix) \<Rightarrow> matrix \<Rightarrow> real \<Rightarrow> rng \<Rightarrow> error + (real option \<times> rng)" where
  "eval_point cfg predict test_data snr_dB g =
     (let snr = 10 powr (snr_dB / 10);
          predictions = predict test_data;
          signal = predictions in
      case eval_channel cfg snr signal g of
        Inl e \<Rightarrow> Inl e
      | Inr (signal1, g') \<Rightarrow>
          let signal2 = map (map np_round) signal1 in
          (case np_broadcast2 (\<lambda>s t. s \<noteq> t) signal2 test_data of
             Inl e \<Rightarrow> Inl e
           | Inr errors \<Rightarrow> Inr (np_mean errors, g')))"

text \<open>
  The loop over \<^verbatim>\<open>range(0, len(range_SNR_dB))\<close>, storing into \<open>ber[i]\<close>; an entry of
  \<open>ber\<close> is \<open>None\<close> when the stored mean is \<open>nan\<close>.
\<close>

fun sweep_loop ::
  "config \<Rightarrow> (matrix \<Rightarrow> matrix) \<Rightarrow> matrix \<Rightarrow> vector \<Rightarrow> nat list \<Rightarrow> real option list \<Rightarrow> rng
     \<Rightarrow> error + (real option list \<times> rng)" where
  "sweep_loop cfg predict test_data range_SNR_dB [] ber g = Inr (ber, g)"
| "sweep_loop cfg predict test_data range_SNR_dB (i # is) ber g =
     (if length range_SNR_dB \<le> i then Inl IndexError
      else
        (case eval_point cfg predict test_data (range_SNR_dB ! i) g of
           Inl e \<Rightarrow> Inl e
         | Inr (b, g') \<Rightarrow>
             if length ber \<le> i then Inl IndexError
             else sweep_loop cfg predict test_data range_SNR_dB is (ber[i := b]) g'))"

text \<open>The sweep; its result pairs each swept value with its error rate, as plotted.\<close>

definition evaluation_sweep ::
  "config \<Rightarrow> (matrix \<Rightarrow> matrix) \<Rightarrow> matrix \<Rightarrow> rng \<Rightarrow> error + ((real \<times> real option) list \<times> rng)" where
  "evaluation_sweep cfg predict test_data g =
     (case np_linspace (real_of_int (start cfg)) (real_of_int (end_dB cfg))
             (2 * (end_dB cfg - start cfg) + 1) of
        Inl e \<Rightarrow> Inl e
      | Inr range_SNR_dB \<Rightarrow>
          let ber = replicate (length range_SNR_dB) (Some 0) in
          (case sweep_loop cfg predict test_data range_SNR_dB [0..<length range_SNR_dB] ber g of
             Inl e \<Rightarrow> Inl e
           | Inr (ber', g') \<Rightarrow> Inr (zip range_SNR_dB ber', g')))"

text \<open>The entry in row \<open>r\<close>, column \<open>c\<close> of a returned array.\<close>

definition signal_at :: "nat \<Rightarrow> nat \<Rightarrow> error + (matrix \<times> rng) \<Rightarrow> error + real" where
  "signal_at r c res = (case res of Inl e \<Rightarrow> Inl e | Inr (s, g) \<Rightarrow> Inr (s ! r ! c))"

subsection \<open>Facts about the constants\<close>

lemma k_source_config: "k source_config = 4"
proof -
  have "log 2 (16::real) = log 2 (2 ^ 4)" by simp
  also have "\<dots> = 4" by (subst log_pow_cancel) simp_all
  finally show ?thesis by (simp add: k_def source_config_def)
qed

lemma R_source_config: "R source_config = 2"
  by (simp add: R_def k_source_config) (simp add: source_config_def)

lemma k_pos: "valid_config cfg \<Longrightarrow> 1 \<le> k cfg"
proof -
  assume "valid_config cfg"
  then have "(2::real) \<le> real (M cfg)" by (simp add: valid_config_def)
  then have "log 2 2 \<le> log 2 (real (M cfg))" by (subst log_le_cancel_iff) simp_all
  then have "1 \<le> log 2 (real (M cfg))" by simp
  then show ?thesis by (simp add: k_def le_floor_iff)
qed

lemma R_pos: "valid_config cfg \<Longrightarrow> 0 < R cfg"
  using k_pos[of cfg] by (simp add: R_def valid_config_def)

lemma Eb_No_pos: "0 < Eb_No cfg"
  by (simp add: Eb_No_def)

lemma beta_variance_pos: "valid_config cfg \<Longrightarrow> 0 < beta_variance cfg"
  using R_pos[of cfg] Eb_No_pos[of cfg] by (simp add: beta_variance_def)

lemma beta_variance_nonneg: "valid_config cfg \<Longrightarrow> 0 \<le> beta_variance cfg"
  using beta_variance_pos[of cfg] by simp

lemma valid_source_config: "valid_config source_config"
  by (simp add: valid_config_def source_config_def)

lemma beta_variance_source: "beta_variance source_config = 1 / (4 * 10 powr (7 / 10))"
  by (simp add: beta_variance_def Eb_No_def R_source_config) (simp add: source_config_def)

lemma powr_7_10_gt_1: "(1::real) < 10 powr (7 / 10)"
proof -
  have "(10::real) powr 0 < 10 powr (7 / 10)" by (rule powr_less_mono) simp_all
  then show ?thesis by simp
qed

lemma beta_variance_source_pos: "0 < beta_variance source_config"
  by (simp add: beta_variance_source)

lemma beta_variance_source_less: "beta_variance source_config < 1 / 4"
  using powr_7_10_gt_1 by (simp add: beta_variance_source field_simps)

subsection \<open>Broadcasting on arrays of matching shape\<close>

lemma stretch_same: "length xs = n \<Longrightarrow> stretch n xs = xs"
  by (simp add: stretch_def)

lemma stretch_single: "stretch n [x] = replicate n x"
  by (auto simp add: stretch_def)

lemma broadcast_dim_same: "broadcast_dim n n = Some n"
  by (simp add: broadcast_dim_def)

lemma broadcast_dim_one: "broadcast_dim n (Suc 0) = Some n"
  by (simp add: broadcast_dim_def)

lemma map2_replicate_right: "map2 f xs (replicate (length xs) y) = map (\<lambda>x. f x y) xs"
  by (induction xs) simp_all

lemma np_broadcast2_same_shape:
  assumes "length a = length b"
    and "\<forall>ra\<in>set a. length ra = c" and "\<forall>rb\<in>set b. length rb = c"
  shows "np_broadcast2 f a b = Inr (map2 (map2 f) a b)"
proof (cases "a = []")
  case True
  then show ?thesis using assms by (simp add: np_broadcast2_def broadcast_dim_same)
next
  case False
  then have b: "b \<noteq> []" using assms(1) by auto
  have hd: "length (hd a) = c" "length (hd b) = c" using False b assms by simp_all
  have "map2 (\<lambda>ra rb. map2 f (stretch c ra) (stretch c rb)) a b = map2 (map2 f) a b"
  proof (rule map_cong[OF refl])
    fix p assume "p \<in> set (zip a b)"
    then have "fst p \<in> set a" "snd p \<in> set b"
      by (metis prod.collapse set_zip_leftD, metis prod.collapse set_zip_rightD)
    then have "length (fst p) = c" "length (snd p) = c" using assms by auto
    then show "(case p of (ra, rb) \<Rightarrow> map2 f (stretch c ra) (stretch c rb)) = (case p of (ra, rb) \<Rightarrow> map2 f ra rb)"
      by (cases p) (simp add: stretch_same)
  qed
  then show ?thesis
    using False b hd assms(1) by (simp add: np_broadcast2_def broadcast_dim_same stretch_same)
qed

lemma np_broadcast2_row:
  assumes "\<forall>ra\<in>set a. length ra = length v"
  shows "np_broadcast2 f a [v] = Inr (map (\<lambda>ra. map2 f ra v) a)"
proof (cases "a = []")
  case True
  then show ?thesis by (simp add: np_broadcast2_def broadcast_dim_def)
next
  case False
  have hd: "length (hd a) = length v" using False assms by simp
  have "map2 (\<lambda>ra rb. map2 f (stretch (length v) ra) (stretch (length v) rb)) a (replicate (length a) v)
        = map (\<lambda>ra. map2 f ra v) a"
    using assms by (simp add: map2_replicate_right stretch_same)
  then show ?thesis
    using False hd by (simp add: np_broadcast2_def broadcast_dim_same broadcast_dim_one stretch_same stretch_single)
qed

subsection \<open>The channel functions in closed form\<close>

text \<open>
  Under the shape conditions of the program (a batch with \<open>num_channels\<close> columns for
  the training layers, a signal of \<open>size_test_data\<close> rows and \<open>M\<close> columns for the
  sweep) no call raises, and the returned arrays are given entry by entry.
\<close>

lemma fade_rows_train:
  "map2 (*) row (map (\<lambda>v. 1 - v) (map2 (*) row draw)) =
   map2 (\<lambda>xv d. xv * (1 - xv * d)) row (draw :: real list)"
proof (induction row arbitrary: draw)
  case Nil
  then show ?case by simp
next
  case (Cons a row)
  then show ?case by (cases draw) simp_all
qed

lemma fade_matrix_train:
  "map2 (map2 (*)) x (map (map (\<lambda>v. 1 - v)) (map (\<lambda>ra. map2 (*) ra draw) x)) =
   map (\<lambda>row. map2 (\<lambda>xv d. xv * (1 - xv * d)) row (draw :: real list)) x"
  by (induction x) (simp_all add: fade_rows_train[simplified])

lemma rayleigh_explicit:
  assumes "valid_config cfg" and "\<forall>row\<in>set x. length row = num_channels cfg"
  shows "rayleigh cfg x g =
    Inr (map (\<lambda>row. map2 (\<lambda>xv d. xv * (1 - xv * d)) row
               (map (\<lambda>i. beta_variance cfg * rayleigh_src g (rayleigh_pos g + i))
                  [0..<num_channels cfg])) x,
         g\<lparr>rayleigh_pos := rayleigh_pos g + num_channels cfg\<rparr>)"
proof -
  let ?draw = "map (\<lambda>i. beta_variance cfg * rayleigh_src g (rayleigh_pos g + i)) [0..<num_channels cfg]"
  have d: "np_random_rayleigh (beta_variance cfg) (num_channels cfg) g =
      Inr (?draw, g\<lparr>rayleigh_pos := rayleigh_pos g + num_channels cfg\<rparr>)"
    using beta_variance_nonneg[OF assms(1)] by (simp add: np_random_rayleigh_def)
  have f: "np_broadcast2 (*) x [?draw] = Inr (map (\<lambda>ra. map2 (*) ra ?draw) x)"
    by (rule np_broadcast2_row) (simp add: assms(2))
  have m: "np_broadcast2 (*) x (map (map (\<lambda>v. 1 - v)) (map (\<lambda>ra. map2 (*) ra ?draw) x)) =
      Inr (map2 (map2 (*)) x (map (map (\<lambda>v. 1 - v)) (map (\<lambda>ra. map2 (*) ra ?draw) x)))"
    by (rule np_broadcast2_same_shape[where c = "num_channels cfg"]) (auto simp add: assms(2))
  show ?thesis
    by (simp add: rayleigh_def d f m fade_matrix_train del: map_map)
qed

lemma standard_normal_fst:
  "fst (standard_normal d0 d1 g) =
     map (\<lambda>r. map (\<lambda>c. randn_src g (randn_pos g + r * d1 + c)) [0..<d1]) [0..<d0]"
  by (simp add: standard_normal_def)

lemma standard_normal_snd:
  "snd (standard_normal d0 d1 g) = g\<lparr>randn_pos := randn_pos g + d0 * d1\<rparr>"
  by (simp add: standard_normal_def)

lemma eval_channel_explicit:
  assumes "valid_config cfg" and "0 \<le> size_test_data cfg"
    and "length s = nat (size_test_data cfg)"
    and "\<forall>row\<in>set s. length row = M cfg"
  shows "eval_channel cfg snr s g =
    Inr (map (\<lambda>r. map (\<lambda>c.
              s ! r ! c * (1 - beta_variance cfg * rayleigh_src g (rayleigh_pos g + c))
              + sqrt (1 / (2 * R cfg * snr)) * randn_src g (randn_pos g + r * M cfg + c))
            [0..<M cfg]) [0..<length s],
         g\<lparr>rayleigh_pos := rayleigh_pos g + M cfg,
           randn_pos := randn_pos g + length s * M cfg\<rparr>)"
proof -
  let ?fad = "map (\<lambda>i. beta_variance cfg * rayleigh_src g (rayleigh_pos g + i)) [0..<M cfg]"
  let ?g1 = "g\<lparr>rayleigh_pos := rayleigh_pos g + M cfg\<rparr>"
  let ?std = "sqrt (1 / (2 * R cfg * snr))"
  let ?s1 = "map (\<lambda>ra. map2 (*) ra (map (\<lambda>v. 1 - v) ?fad)) s"
  let ?z = "map (\<lambda>r. map (\<lambda>c. randn_src g (randn_pos g + r * M cfg + c)) [0..<M cfg]) [0..<length s]"
  let ?noise = "map (map (\<lambda>v. ?std * v)) ?z"
  have d: "np_random_rayleigh (beta_variance cfg) (M cfg) g = Inr (?fad, ?g1)"
    using beta_variance_nonneg[OF assms(1)] by (simp add: np_random_rayleigh_def)
  have s1: "np_broadcast2 (*) s [map (\<lambda>v. 1 - v) ?fad] = Inr ?s1"
    by (rule np_broadcast2_row) (simp add: assms(4))
  have n: "np_random_randn (size_test_data cfg) (M cfg) ?g1 =
      Inr (?z, g\<lparr>rayleigh_pos := rayleigh_pos g + M cfg,
                  randn_pos := randn_pos g + length s * M cfg\<rparr>)"
    using assms(2,3) by (simp add: np_random_randn_def standard_normal_def)
  have s2: "np_broadcast2 (+) ?s1 ?noise = Inr (map2 (map2 (+)) ?s1 ?noise)"
    by (rule np_broadcast2_same_shape[where c = "M cfg"]) (auto simp add: assms(4))
  have e: "map2 (map2 (+)) ?s1 ?noise =
      map (\<lambda>r. map (\<lambda>c.
              s ! r ! c * (1 - beta_variance cfg * rayleigh_src g (rayleigh_pos g + c))
              + ?std * randn_src g (randn_pos g + r * M cfg + c))
            [0..<M cfg]) [0..<length s]"
  proof (rule nth_equalityI)
    show "length (map2 (map2 (+)) ?s1 ?noise) = length (map (\<lambda>r. map (\<lambda>c.
              s ! r ! c * (1 - beta_variance cfg * rayleigh_src g (rayleigh_pos g + c))
              + ?std * randn_src g (randn_pos g + r * M cfg + c))
            [0..<M cfg]) [0..<length s])" by simp
  next
    fix r assume "r < length (map2 (map2 (+)) ?s1 ?noise)"
    then have r: "r < length s" by simp
    then have len: "length (s ! r) = M cfg" using assms(4) by simp
    show "map2 (map2 (+)) ?s1 ?noise ! r = map (\<lambda>r. map (\<lambda>c.
              s ! r ! c * (1 - beta_variance cfg * rayleigh_src g (rayleigh_pos g + c))
              + ?std * randn_src g (randn_pos g + r * M cfg + c))
            [0..<M cfg]) [0..<length s] ! r"
      using r len by (auto intro!: nth_equalityI)
  qed
  show ?thesis
    by (simp add: eval_channel_def d s1 n s2 e del: map_map)
qed

lemma rayleigh_index_form:
  assumes "valid_config cfg" and "\<forall>row\<in>set x. length row = num_channels cfg"
  shows "rayleigh cfg x g =
    Inr (map (\<lambda>r. map (\<lambda>c.
              x ! r ! c * (1 - x ! r ! c * (beta_variance cfg * rayleigh_src g (rayleigh_pos g + c))))
            [0..<num_channels cfg]) [0..<length x],
         g\<lparr>rayleigh_pos := rayleigh_pos g + num_channels cfg\<rparr>)"
proof -
  let ?draw = "map (\<lambda>i. beta_variance cfg * rayleigh_src g (rayleigh_pos g + i)) [0..<num_channels cfg]"
  have "map (\<lambda>row. map2 (\<lambda>xv d. xv * (1 - xv * d)) row ?draw) x =
        map (\<lambda>r. map (\<lambda>c.
              x ! r ! c * (1 - x ! r ! c * (beta_variance cfg * rayleigh_src g (rayleigh_pos g + c))))
            [0..<num_channels cfg]) [0..<length x]"
    using assms(2) by (auto intro!: nth_equalityI)
  then show ?thesis
    by (simp only: rayleigh_explicit[OF assms])
qed

lemma GaussianNoise_index_form:
  assumes "\<forall>row\<in>set x. length row = n"
  shows "GaussianNoise stddev x g =
    (map (\<lambda>r. map (\<lambda>c. x ! r ! c + stddev * randn_src g (randn_pos g + r * n + c))
            [0..<n]) [0..<length x],
     g\<lparr>randn_pos := randn_pos g + length x * n\<rparr>)"
proof (cases "x = []")
  case True
  then show ?thesis by (simp add: GaussianNoise_def standard_normal_def)
next
  case False
  then have hd: "length (hd x) = n" using assms by simp
  have "map2 (map2 (\<lambda>xv zv. xv + stddev * zv)) x
          (map (\<lambda>r. map (\<lambda>c. randn_src g (randn_pos g + r * n + c)) [0..<n]) [0..<length x]) =
        map (\<lambda>r. map (\<lambda>c. x ! r ! c + stddev * randn_src g (randn_pos g + r * n + c))
            [0..<n]) [0..<length x]"
    using assms by (auto intro!: nth_equalityI)
  then show ?thesis
    using False hd by (simp add: GaussianNoise_def standard_normal_def)
qed

lemma channel_layers_index_form:
  assumes "valid_config cfg" and "\<forall>row\<in>set x. length row = num_channels cfg"
  shows "channel_layers cfg x g =
    Inr (map (\<lambda>r. map (\<lambda>c.
              x ! r ! c * (1 - x ! r ! c * (beta_variance cfg * rayleigh_src g (rayleigh_pos g + c)))
              + sqrt (beta_variance cfg) * randn_src g (randn_pos g + r * num_channels cfg + c))
            [0..<num_channels cfg]) [0..<length x],
         g\<lparr>rayleigh_pos := rayleigh_pos g + num_channels cfg,
           randn_pos := randn_pos g + length x * num_channels cfg\<rparr>)"
proof -
  let ?y = "map (\<lambda>r. map (\<lambda>c.
              x ! r ! c * (1 - x ! r ! c * (beta_variance cfg * rayleigh_src g (rayleigh_pos g + c))))
            [0..<num_channels cfg]) [0..<length x]"
  have y: "\<forall>row\<in>set ?y. length row = num_channels cfg" by auto
  have e: "map (\<lambda>r. map (\<lambda>c. ?y ! r ! c + sqrt (beta_variance cfg) * randn_src g (randn_pos g + r * num_channels cfg + c))
            [0..<num_channels cfg]) [0..<length x] =
     map (\<lambda>r. map (\<lambda>c.
              x ! r ! c * (1 - x ! r ! c * (beta_variance cfg * rayleigh_src g (rayleigh_pos g + c)))
              + sqrt (beta_variance cfg) * randn_src g (randn_pos g + r * num_channels cfg + c))
            [0..<num_channels cfg]) [0..<length x]"
    by (auto intro!: nth_equalityI)
  show ?thesis
    by (simp add: channel_layers_def rayleigh_index_form[OF assms] GaussianNoise_index_form[OF y] e del: map_map)
qed

subsection \<open>Single entries of the returned arrays\<close>

lemma signal_at_index_form:
  "r < n \<Longrightarrow> c < m \<Longrightarrow>
   signal_at r c (Inr (map (\<lambda>r. map (f r) [0..<m]) [0..<n], g)) = Inr (f r c)"
  by (simp add: signal_at_def)

lemma source_config_fields:
  "M source_config = 16" "num_channels source_config = 2"
  "size_test_data source_config = 50000" "Eb_No_dB source_config = 7"
  "start source_config = - 15" "end_dB source_config = 15"
  by (simp_all add: source_config_def)

lemma rayleigh_entry:
  assumes "valid_config cfg" and "\<forall>row\<in>set x. length row = num_channels cfg"
    and "r < length x" and "c < num_channels cfg"
  shows "signal_at r c (rayleigh cfg x g) =
    Inr (x ! r ! c * (1 - x ! r ! c * (beta_variance cfg * rayleigh_src g (rayleigh_pos g + c))))"
  by (simp only: rayleigh_index_form[OF assms(1,2)] signal_at_index_form[OF assms(3,4)])

lemma channel_layers_entry:
  assumes "valid_config cfg" and "\<forall>row\<in>set x. length row = num_channels cfg"
    and "r < length x" and "c < num_channels cfg"
  shows "signal_at r c (channel_layers cfg x g) =
    Inr (x ! r ! c * (1 - x ! r ! c * (beta_variance cfg * rayleigh_src g (rayleigh_pos g + c)))
         + sqrt (beta_variance cfg) * randn_src g (randn_pos g + r * num_channels cfg + c))"
  by (simp only: channel_layers_index_form[OF assms(1,2)] signal_at_index_form[OF assms(3,4)])

lemma eval_channel_entry:
  assumes "valid_config cfg" and "0 \<le> size_test_data cfg"
    and "length s = nat (size_test_data cfg)"
    and "\<forall>row\<in>set s. length row = M cfg"
    and "r < length s" and "c < M cfg"
  shows "signal_at r c (eval_channel cfg snr s g) =
    Inr (s ! r ! c * (1 - beta_variance cfg * rayleigh_src g (rayleigh_pos g + c))
         + sqrt (1 / (2 * R cfg * snr)) * randn_src g (randn_pos g + r * M cfg + c))"
  by (simp only: eval_channel_explicit[OF assms(1-4)] signal_at_index_form[OF assms(5,6)])

lemma rayleigh_spec_entry:
  assumes "valid_config cfg" and "\<forall>row\<in>set x. length row = num_channels cfg"
    and "r < length x" and "c < num_channels cfg"
  shows "signal_at r c (rayleigh_spec cfg x g) =
    Inr (x ! r ! c * (1 - sqrt (beta_variance cfg) * rayleigh_src g (rayleigh_pos g + c)))"
proof -
  let ?fad = "map (\<lambda>i. sqrt (beta_variance cfg) * rayleigh_src g (rayleigh_pos g + i)) [0..<num_channels cfg]"
  have d: "np_random_rayleigh (sqrt (beta_variance cfg)) (num_channels cfg) g =
      Inr (?fad, g\<lparr>rayleigh_pos := rayleigh_pos g + num_channels cfg\<rparr>)"
    using beta_variance_nonneg[OF assms(1)] by (simp add: np_random_rayleigh_def)
  have b: "np_broadcast2 (*) x [map (\<lambda>v. 1 - v) ?fad] = Inr (map (\<lambda>ra. map2 (*) ra (map (\<lambda>v. 1 - v) ?fad)) x)"
    by (rule np_broadcast2_row) (simp add: assms(2))
  have "length (x ! r) = num_channels cfg" using assms(2,3) by simp
  then show ?thesis
    using assms(3,4) by (simp add: rayleigh_spec_def d b signal_at_def del: map_map)
qed

lemma sqrt_beta_variance_source: "2 * beta_variance source_config < sqrt (beta_variance source_config)"
proof -
  let ?b = "beta_variance source_config"
  have p: "0 < ?b" by (rule beta_variance_source_pos)
  have l: "?b < 1 / 4" by (rule beta_variance_source_less)
  have "(2 * ?b)\<^sup>2 = 4 * ?b * ?b" by (simp add: power2_eq_square)
  also have "\<dots> < 4 * (1 / 4) * ?b" using p l by (intro mult_strict_right_mono mult_strict_left_mono) simp_all
  finally have "(2 * ?b)\<^sup>2 < ?b" by simp
  then show ?thesis by (rule real_less_rsqrt)
qed

lemma big_shape:
  "length (replicate 50000 (replicate 16 (v::real))) = nat (size_test_data source_config)"
  "\<forall>row\<in>set (replicate 50000 (replicate 16 (v::real))). length row = M source_config"
  "0 \<le> size_test_data source_config"
  by (simp_all add: source_config_fields)

lemma cell_index_inj: "inj_on (\<lambda>(r, c). r * m + c) ({..<n} \<times> {..<m :: nat})"
proof (rule inj_onI)
  fix p q assume p: "p \<in> {..<n} \<times> {..<m}" and q: "q \<in> {..<n} \<times> {..<m}"
    and e: "(case p of (r, c) \<Rightarrow> r * m + c) = (case q of (r, c) \<Rightarrow> r * m + c)"
  obtain r c where pq: "p = (r, c)" by (cases p)
  obtain r' c' where qq: "q = (r', c')" by (cases q)
  have c: "c < m" "c' < m" using p q pq qq by auto
  have eq: "r * m + c = r' * m + c'" using e pq qq by simp
  have "(r * m + c) div m = r" "(r' * m + c') div m = r'" using c by simp_all
  then have r: "r = r'" using eq by simp
  then have "c = c'" using eq by simp
  then show "p = q" using r pq qq by simp
qed

subsection \<open>The message source in closed form\<close>

lemma np_zeros_update:
  assumes "i < n"
  shows "length ((np_zeros n)[i := 1]) = n"
    and "(np_zeros n)[i := 1] ! i = 1"
    and "\<forall>j<n. j \<noteq> i \<longrightarrow> (np_zeros n)[i := 1] ! j = 0"
  using assms by (simp_all add: np_zeros_def)

lemma create_rows_explicit:
  assumes "0 < M cfg"
  shows "create_rows cfg n data g =
    Inr (data @ map (\<lambda>i. (np_zeros (M cfg))[randint_src g (randint_pos g + i) mod M cfg := 1]) [0..<n],
         g\<lparr>randint_pos := randint_pos g + n\<rparr>)"
  using assms
proof (induction n arbitrary: data g)
  case 0
  then show ?case by simp
next
  case (Suc n)
  let ?g' = "g\<lparr>randint_pos := randint_pos g + 1\<rparr>"
  have "map (\<lambda>i. (np_zeros (M cfg))[randint_src g (randint_pos g + i) mod M cfg := 1]) [0..<Suc n] =
        (np_zeros (M cfg))[randint_src g (randint_pos g) mod M cfg := 1] #
        map (\<lambda>i. (np_zeros (M cfg))[randint_src ?g' (randint_pos ?g' + i) mod M cfg := 1]) [0..<n]"
    by (simp add: upt_conv_Cons map_Suc_upt[symmetric] del: upt_Suc)
  then show ?case
    using Suc.prems by (simp add: np_random_randint_def Suc.IH[OF Suc.prems] del: upt_Suc)
qed

subsection \<open>The constants of the small configuration\<close>

lemma small_config_fields:
  "M small_config = 2" "num_channels small_config = 1"
  "size_test_data small_config = 2" "Eb_No_dB small_config = 0"
  "start small_config = 0" "end_dB small_config = 1"
  by (simp_all add: small_config_def)

lemma valid_small_config: "valid_config small_config"
  by (simp add: valid_config_def small_config_def)

lemma k_small_config: "k small_config = 1"
  by (simp add: k_def small_config_fields)

lemma R_small_config: "R small_config = 1"
  by (simp add: R_def k_small_config small_config_fields)

lemma beta_variance_small_config: "beta_variance small_config = 1 / 2"
  by (simp add: beta_variance_def Eb_No_def R_small_config small_config_fields)

subsection \<open>The constants of the unit-deviation configuration\<close>

lemma unit_config_fields:
  "M unit_config = 2" "num_channels unit_config = 2"
  "size_test_data unit_config = 2" "Eb_No_dB unit_config = 0"
  by (simp_all add: unit_config_def)

lemma valid_unit_config: "valid_config unit_config"
  by (simp add: valid_config_def unit_config_def)

lemma k_unit_config: "k unit_config = 1"
  by (simp add: k_def unit_config_fields)

lemma R_unit_config: "R unit_config = 1 / 2"
  by (simp add: R_def k_unit_config unit_config_fields)

lemma beta_variance_unit_config: "beta_variance unit_config = 1"
  by (simp add: beta_variance_def Eb_No_def R_unit_config unit_config_fields)

subsection \<open>One sweep point\<close>

lemma length_concat_index_form:
  "length (concat (map (\<lambda>r. map (f r) [0..<m]) xs)) = length xs * m"
  by (induction xs) simp_all

lemma np_mean_index_form:
  assumes "0 < n" and "0 < m"
  shows "np_mean (map (\<lambda>r. map (f r) [0..<m]) [0..<n]) =
    Some (real (length (filter (\<lambda>e. e) (concat (map (\<lambda>r. map (f r) [0..<m]) [0..<n]))))
          / real (n * m))"
proof -
  have "length (concat (map (\<lambda>r. map (f r) [0..<m]) [0..<n])) = n * m"
    by (simp add: length_concat_index_form)
  moreover from this have "concat (map (\<lambda>r. map (f r) [0..<m]) [0..<n]) \<noteq> []"
    using assms by (metis length_0_conv mult_is_0 less_numeral_extra(3))
  ultimately show ?thesis
    by (simp add: np_mean_def Let_def)
qed

lemma np_mean_bounds:
  assumes "np_mean errors = Some b"
  shows "0 \<le> b \<and> b \<le> 1"
proof -
  let ?flat = "concat errors"
  from assms have ne: "?flat \<noteq> []" and b: "b = real (length (filter (\<lambda>e. e) ?flat)) / real (length ?flat)"
    by (auto simp add: np_mean_def Let_def split: if_splits)
  have "length (filter (\<lambda>e. e) ?flat) \<le> length ?flat" by (rule length_filter_le)
  then have "real (length (filter (\<lambda>e. e) ?flat)) \<le> real (length ?flat)" by simp
  moreover have "0 < real (length ?flat)" using ne by simp
  ultimately show ?thesis unfolding b by (simp add: divide_le_eq_1)
qed

lemma eval_point_explicit:
  assumes "valid_config cfg" and "0 \<le> size_test_data cfg"
    and "length (predict test_data) = nat (size_test_data cfg)"
    and "\<forall>row\<in>set (predict test_data). length row = M cfg"
    and "length test_data = nat (size_test_data cfg)"
    and "\<forall>row\<in>set test_data. length row = M cfg"
  shows "eval_point cfg predict test_data snr_dB g =
    Inr (np_mean (map (\<lambda>r. map (\<lambda>c.
             np_round (predict test_data ! r ! c
                         * (1 - beta_variance cfg * rayleigh_src g (rayleigh_pos g + c))
                       + sqrt (1 / (2 * R cfg * 10 powr (snr_dB / 10)))
                         * randn_src g (randn_pos g + r * M cfg + c))
             \<noteq> test_data ! r ! c) [0..<M cfg]) [0..<nat (size_test_data cfg)]),
         g\<lparr>rayleigh_pos := rayleigh_pos g + M cfg,
           randn_pos := randn_pos g + nat (size_test_data cfg) * M cfg\<rparr>)"
proof -
  let ?n = "nat (size_test_data cfg)"
  let ?v = "\<lambda>r c. predict test_data ! r ! c
                         * (1 - beta_variance cfg * rayleigh_src g (rayleigh_pos g + c))
                       + sqrt (1 / (2 * R cfg * 10 powr (snr_dB / 10)))
                         * randn_src g (randn_pos g + r * M cfg + c)"
  let ?s1 = "map (\<lambda>r. map (\<lambda>c. ?v r c) [0..<M cfg]) [0..<?n]"
  let ?s2 = "map (\<lambda>r. map (\<lambda>c. np_round (?v r c)) [0..<M cfg]) [0..<?n]"
  have c: "eval_channel cfg (10 powr (snr_dB / 10)) (predict test_data) g =
     Inr (?s1, g\<lparr>rayleigh_pos := rayleigh_pos g + M cfg,
           randn_pos := randn_pos g + ?n * M cfg\<rparr>)"
    using eval_channel_explicit[OF assms(1-4), of "10 powr (snr_dB / 10)" g] assms(3) by simp
  have r: "map (map np_round) ?s1 = ?s2" by simp
  have b: "np_broadcast2 (\<lambda>s t. s \<noteq> t) ?s2 test_data = Inr (map2 (map2 (\<lambda>s t. s \<noteq> t)) ?s2 test_data)"
    by (rule np_broadcast2_same_shape[where c = "M cfg"]) (auto simp add: assms(5,6))
  have e: "map2 (map2 (\<lambda>s t. s \<noteq> t)) ?s2 test_data =
      map (\<lambda>r. map (\<lambda>c. np_round (?v r c) \<noteq> test_data ! r ! c) [0..<M cfg]) [0..<?n]"
  proof (rule nth_equalityI)
    show "length (map2 (map2 (\<lambda>s t. s \<noteq> t)) ?s2 test_data) =
        length (map (\<lambda>r. map (\<lambda>c. np_round (?v r c) \<noteq> test_data ! r ! c) [0..<M cfg]) [0..<?n])"
      by (simp add: assms(5))
  next
    fix i assume "i < length (map2 (map2 (\<lambda>s t. s \<noteq> t)) ?s2 test_data)"
    then have i: "i < ?n" by simp
    then have len: "length (test_data ! i) = M cfg" using assms(5,6) by simp
    show "map2 (map2 (\<lambda>s t. s \<noteq> t)) ?s2 test_data ! i =
        map (\<lambda>r. map (\<lambda>c. np_round (?v r c) \<noteq> test_data ! r ! c) [0..<M cfg]) [0..<?n] ! i"
      using i len assms(5) by (auto intro!: nth_equalityI)
  qed
  show ?thesis
    by (simp only: eval_point_def Let_def c r b e sum.case prod.case)
qed

lemma eval_point_count:
  assumes "valid_config cfg" and "0 < size_test_data cfg"
    and "length (predict test_data) = nat (size_test_data cfg)"
    and "\<forall>row\<in>set (predict test_data). length row = M cfg"
    and "length test_data = nat (size_test_data cfg)"
    and "\<forall>row\<in>set test_data. length row = M cfg"
  shows "eval_point cfg predict test_data snr_dB g =
    Inr (Some (real (length (filter (\<lambda>e. e) (concat
             (map (\<lambda>r. map (\<lambda>c.
                np_round (predict test_data ! r ! c
                            * (1 - beta_variance cfg * rayleigh_src g (rayleigh_pos g + c))
                          + sqrt (1 / (2 * R cfg * 10 powr (snr_dB / 10)))
                            * randn_src g (randn_pos g + r * M cfg + c))
                \<noteq> test_data ! r ! c) [0..<M cfg]) [0..<nat (size_test_data cfg)]))))
               / real (nat (size_test_data cfg) * M cfg)),
         g\<lparr>rayleigh_pos := rayleigh_pos g + M cfg,
           randn_pos := randn_pos g + nat (size_test_data cfg) * M cfg\<rparr>)"
proof -
  have n: "0 < nat (size_test_data cfg)" using assms(2) by simp
  have m: "0 < M cfg" using assms(1) by (simp add: valid_config_def)
  have z: "0 \<le> size_test_data cfg" using assms(2) by simp
  show ?thesis
    by (simp only: eval_point_explicit[where predict = predict and test_data = test_data,
          OF assms(1) z assms(3-6)] np_mean_index_form[OF n m])
qed

text \<open>
  \<open>np_round\<close> returns an integer nearest to its argument, and at a tie the even one.
\<close>

lemma np_round_nearest:
  "\<exists>n::int. np_round x = real_of_int n \<and> \<bar>x - real_of_int n\<bar> \<le> 1 / 2 \<and>
      (\<bar>x - real_of_int n\<bar> = 1 / 2 \<longrightarrow> even n)"
proof -
  let ?f = "\<lfloor>x\<rfloor>"
  let ?d = "x - real_of_int ?f"
  have d0: "0 \<le> ?d" and d1: "?d < 1" by linarith+
  consider "?d < 1 / 2" | "1 / 2 < ?d" | "?d = 1 / 2" by linarith
  then show ?thesis
  proof cases
    case 1
    then have r: "np_round x = real_of_int ?f" by (simp add: np_round_def Let_def)
    have "\<bar>x - real_of_int ?f\<bar> < 1 / 2" using 1 d0 by linarith
    then show ?thesis using r by (intro exI[of _ ?f]) simp
  next
    case 2
    then have r: "np_round x = real_of_int (?f + 1)" by (simp add: np_round_def Let_def)
    have "\<bar>x - real_of_int (?f + 1)\<bar> < 1 / 2" using 2 d1 by (simp; linarith)
    then show ?thesis using r by (intro exI[of _ "?f + 1"]) simp
  next
    case 3
    show ?thesis
    proof (cases "even ?f")
      case True
      then have r: "np_round x = real_of_int ?f" using 3 by (simp add: np_round_def Let_def)
      have "\<bar>x - real_of_int ?f\<bar> = 1 / 2" using 3 by simp
      then show ?thesis using r True by (intro exI[of _ ?f]) simp
    next
      case False
      then have r: "np_round x = real_of_int (?f + 1)" using 3 by (simp add: np_round_def Let_def)
      have "\<bar>x - real_of_int (?f + 1)\<bar> = 1 / 2" using 3 by (simp; linarith)
      then show ?thesis using r False by (intro exI[of _ "?f + 1"]) simp
    qed
  qed
qed

lemma np_round_values:
  "np_round 0 = 0" "np_round (1 / 2) = 0" "np_round (3 / 2) = 2" "np_round (5 / 2) = 2"
  "np_round (1 / 20) = 0" "np_round (9 / 20) = 0" "np_round (11 / 20) = 1"
  by (simp_all add: np_round_def Let_def)

lemma eval_point_total:
  assumes "valid_config cfg" and "0 < size_test_data cfg"
    and "length (predict test_data) = nat (size_test_data cfg)"
    and "\<forall>row\<in>set (predict test_data). length row = M cfg"
    and "length test_data = nat (size_test_data cfg)"
    and "\<forall>row\<in>set test_data. length row = M cfg"
  shows "\<exists>b g'. eval_point cfg predict test_data snr_dB g = Inr (Some b, g') \<and> 0 \<le> b \<and> b \<le> 1"
proof -
  let ?E = "map (\<lambda>r. map (\<lambda>c.
             np_round (predict test_data ! r ! c
                         * (1 - beta_variance cfg * rayleigh_src g (rayleigh_pos g + c))
                       + sqrt (1 / (2 * R cfg * 10 powr (snr_dB / 10)))
                         * randn_src g (randn_pos g + r * M cfg + c))
             \<noteq> test_data ! r ! c) [0..<M cfg]) [0..<nat (size_test_data cfg)]"
  have n: "0 < nat (size_test_data cfg)" using assms(2) by simp
  have m: "0 < M cfg" using assms(1) by (simp add: valid_config_def)
  have z: "0 \<le> size_test_data cfg" using assms(2) by simp
  note e = eval_point_explicit[where predict = predict and test_data = test_data,
          OF assms(1) z assms(3-6), of snr_dB g]
  note c = eval_point_count[where predict = predict and test_data = test_data,
          OF assms, of snr_dB g]
  from c[unfolded e] obtain b where b: "np_mean ?E = Some b" by blast
  then have "0 \<le> b \<and> b \<le> 1" by (rule np_mean_bounds)
  then show ?thesis using e b by simp
qed

subsection \<open>The swept values and the loop\<close>

lemma np_linspace_half_steps:
  assumes "s \<le> e"
  shows "np_linspace (real_of_int s) (real_of_int e) (2 * (e - s) + 1) =
    Inr (map (\<lambda>i. real_of_int s + real i / 2) [0..<nat (2 * (e - s) + 1)])"
proof (cases "s = e")
  case True
  then show ?thesis by (simp add: np_linspace_def)
next
  case False
  then have lt: "s < e" using assms by simp
  let ?n = "nat (2 * (e - s) + 1)"
  have n: "1 < ?n" using lt by simp
  have d: "real (?n - 1) = 2 * (real_of_int e - real_of_int s)"
    using lt by (simp add: nat_diff_distrib' of_nat_diff)
  have ne: "real_of_int e - real_of_int s \<noteq> 0" using lt by simp
  have step: "(real_of_int e - real_of_int s) / real (?n - 1) = 1 / 2"
    unfolding d using ne by simp
  have m: "map (\<lambda>i. real_of_int s + real i * ((real_of_int e - real_of_int s) / real (?n - 1))) [0..<?n] =
      map (\<lambda>i. real_of_int s + real i / 2) [0..<?n]"
    by (simp only: step) simp
  have nn: "\<not> 2 * (e - s) + 1 < 0" using lt by simp
  show ?thesis
    by (simp only: np_linspace_def Let_def nn n m if_True if_False)
qed

lemma half_steps_ascending:
  "sorted_wrt (<) (map (\<lambda>i. a + real i / 2) [0..<n])"
  by (simp add: sorted_wrt_map sorted_wrt_mono_rel[OF _ sorted_wrt_upt])

lemma eval_point_state:
  assumes "valid_config cfg" and "0 < size_test_data cfg"
    and "length (predict test_data) = nat (size_test_data cfg)"
    and "\<forall>row\<in>set (predict test_data). length row = M cfg"
    and "length test_data = nat (size_test_data cfg)"
    and "\<forall>row\<in>set test_data. length row = M cfg"
  shows "\<exists>b. eval_point cfg predict test_data snr_dB g =
           Inr (Some b, g\<lparr>rayleigh_pos := rayleigh_pos g + M cfg,
                          randn_pos := randn_pos g + nat (size_test_data cfg) * M cfg\<rparr>) \<and>
           0 \<le> b \<and> b \<le> 1"
proof -
  have z: "0 \<le> size_test_data cfg" using assms(2) by simp
  note e = eval_point_explicit[where predict = predict and test_data = test_data,
          OF assms(1) z assms(3-6), of snr_dB g]
  from eval_point_total[where predict = predict and test_data = test_data, OF assms, of snr_dB g]
  obtain b g' where "eval_point cfg predict test_data snr_dB g = Inr (Some b, g')" "0 \<le> b" "b \<le> 1"
    by blast
  then show ?thesis using e by auto
qed

lemma sweep_loop_entries:
  assumes "valid_config cfg" and "0 < size_test_data cfg"
    and "length (predict test_data) = nat (size_test_data cfg)"
    and "\<forall>row\<in>set (predict test_data). length row = M cfg"
    and "length test_data = nat (size_test_data cfg)"
    and "\<forall>row\<in>set test_data. length row = M cfg"
    and "n \<le> length rs" and "n \<le> length ber" and "i0 + t = n"
  shows "\<exists>ber'.
     sweep_loop cfg predict test_data rs [i0..<n] ber g =
       Inr (ber', g\<lparr>rayleigh_pos := rayleigh_pos g + t * M cfg,
                   randn_pos := randn_pos g + t * (nat (size_test_data cfg) * M cfg)\<rparr>) \<and>
     length ber' = length ber \<and>
     (\<forall>j<i0. ber' ! j = ber ! j) \<and>
     (\<forall>j<t. \<exists>g''. eval_point cfg predict test_data (rs ! (i0 + j))
              (g\<lparr>rayleigh_pos := rayleigh_pos g + j * M cfg,
                 randn_pos := randn_pos g + j * (nat (size_test_data cfg) * M cfg)\<rparr>)
            = Inr (ber' ! (i0 + j), g''))"
  using assms(8,9)
proof (induction t arbitrary: i0 ber g)
  case 0
  then show ?case by simp
next
  case (Suc t)
  let ?g1 = "g\<lparr>rayleigh_pos := rayleigh_pos g + M cfg,
               randn_pos := randn_pos g + nat (size_test_data cfg) * M cfg\<rparr>"
  have i0: "i0 < n" using Suc.prems(2) by simp
  then have up: "[i0..<n] = i0 # [Suc i0..<n]" by (simp add: upt_conv_Cons)
  from eval_point_state[where predict = predict and test_data = test_data, OF assms(1-6), of "rs ! i0" g]
  obtain b where e: "eval_point cfg predict test_data (rs ! i0) g = Inr (Some b, ?g1)" by blast
  have len: "n \<le> length (ber[i0 := Some b])" using Suc.prems(1) by simp
  have st: "Suc i0 + t = n" using Suc.prems(2) by simp
  from Suc.IH[OF len st, of ?g1]
  obtain ber' where
    s: "sweep_loop cfg predict test_data rs [Suc i0..<n] (ber[i0 := Some b]) ?g1 =
       Inr (ber', ?g1\<lparr>rayleigh_pos := rayleigh_pos ?g1 + t * M cfg,
                   randn_pos := randn_pos ?g1 + t * (nat (size_test_data cfg) * M cfg)\<rparr>)"
    and l: "length ber' = length (ber[i0 := Some b])"
    and old: "\<forall>j<Suc i0. ber' ! j = ber[i0 := Some b] ! j"
    and new: "\<forall>j<t. \<exists>g''. eval_point cfg predict test_data (rs ! (Suc i0 + j))
              (?g1\<lparr>rayleigh_pos := rayleigh_pos ?g1 + j * M cfg,
                 randn_pos := randn_pos ?g1 + j * (nat (size_test_data cfg) * M cfg)\<rparr>)
            = Inr (ber' ! (Suc i0 + j), g'')"
    by blast
  have i0r: "i0 < length rs" "i0 < length ber" using i0 assms(7) Suc.prems(1) by simp_all
  have c1: "sweep_loop cfg predict test_data rs [i0..<n] ber g =
       Inr (ber', g\<lparr>rayleigh_pos := rayleigh_pos g + Suc t * M cfg,
                   randn_pos := randn_pos g + Suc t * (nat (size_test_data cfg) * M cfg)\<rparr>)"
  proof -
    have step: "sweep_loop cfg predict test_data rs [i0..<n] ber g =
        sweep_loop cfg predict test_data rs [Suc i0..<n] (ber[i0 := Some b]) ?g1"
      using i0r by (simp add: up e)
    have geq: "?g1\<lparr>rayleigh_pos := rayleigh_pos ?g1 + t * M cfg,
                   randn_pos := randn_pos ?g1 + t * (nat (size_test_data cfg) * M cfg)\<rparr> =
        g\<lparr>rayleigh_pos := rayleigh_pos g + Suc t * M cfg,
                   randn_pos := randn_pos g + Suc t * (nat (size_test_data cfg) * M cfg)\<rparr>"
      by simp
    show ?thesis by (simp only: step s geq)
  qed
  have c2: "length ber' = length ber" using l by simp
  have c3: "\<forall>j<i0. ber' ! j = ber ! j" using old by simp
  have at: "ber' ! i0 = Some b" using old i0r(2) by simp
  have c4: "\<forall>j<Suc t. \<exists>g''. eval_point cfg predict test_data (rs ! (i0 + j))
              (g\<lparr>rayleigh_pos := rayleigh_pos g + j * M cfg,
                 randn_pos := randn_pos g + j * (nat (size_test_data cfg) * M cfg)\<rparr>)
            = Inr (ber' ! (i0 + j), g'')"
  proof (intro allI impI)
    fix j assume j: "j < Suc t"
    show "\<exists>g''. eval_point cfg predict test_data (rs ! (i0 + j))
              (g\<lparr>rayleigh_pos := rayleigh_pos g + j * M cfg,
                 randn_pos := randn_pos g + j * (nat (size_test_data cfg) * M cfg)\<rparr>)
            = Inr (ber' ! (i0 + j), g'')"
    proof (cases j)
      case 0
      then show ?thesis using e at by simp
    next
      case (Suc j')
      then have "j' < t" using j by simp
      from new[rule_format, OF this]
      obtain g'' where n: "eval_point cfg predict test_data (rs ! (Suc i0 + j'))
              (?g1\<lparr>rayleigh_pos := rayleigh_pos ?g1 + j' * M cfg,
                 randn_pos := randn_pos ?g1 + j' * (nat (size_test_data cfg) * M cfg)\<rparr>)
            = Inr (ber' ! (Suc i0 + j'), g'')" by blast
      have geq: "?g1\<lparr>rayleigh_pos := rayleigh_pos ?g1 + j' * M cfg,
                 randn_pos := randn_pos ?g1 + j' * (nat (size_test_data cfg) * M cfg)\<rparr> =
          g\<lparr>rayleigh_pos := rayleigh_pos g + Suc j' * M cfg,
                 randn_pos := randn_pos g + Suc j' * (nat (size_test_data cfg) * M cfg)\<rparr>"
        by simp
      have ieq: "Suc i0 + j' = i0 + Suc j'" by simp
      show ?thesis
        unfolding Suc using n[unfolded geq ieq] by blast
    qed
  qed
  show ?case by (rule exI[of _ ber']) (intro conjI c1 c2 c3 c4)
qed

section \<open>The claims\<close>

subsection \<open>C7: the derived noise parameter\<close>

text \<open>
  Claim C7. With the configured constants \<open>Eb_No_dB = 7\<close>, \<open>num_channels = 2\<close> and
  \<open>M = 16\<close> the script derives \<open>k = 4\<close>, \<open>R = k / num_channels\<close> and
  \<open>beta_variance = 1 / (2 * (4 / 2) * 10 ^ 0.7)\<close>, as an identity of real numbers.
\<close>

theorem beta_variance_source_config:
  "k source_config = 4 \<and> R source_config = 4 / 2 \<and>
   beta_variance source_config = 1 / (2 * (4 / 2) * 10 powr (7 / 10))"
  by (simp add: beta_variance_def Eb_No_def R_source_config k_source_config)
     (simp add: source_config_def)

subsection \<open>C1: the training-time fading stage\<close>

text \<open>
  Claim C1, as amended. For a batch whose rows have \<open>num_channels\<close> entries, a call of
  \<open>rayleigh\<close> makes one draw of length \<open>num_channels\<close> from the Rayleigh sampler with
  scale \<open>beta_variance\<close> (not its square root), advancing the generator past the cells
  it read, and returns an array of the input's shape. On every entry whose input value
  is 0 or 1 the output is the input multiplied by one minus the drawn value of its
  column.
\<close>

theorem rayleigh_draw_and_output:
  assumes "valid_config cfg" and "\<forall>row\<in>set x. length row = num_channels cfg"
  shows "\<exists>draw g' y.
     np_random_rayleigh (beta_variance cfg) (num_channels cfg) g = Inr (draw, g') \<and>
     length draw = num_channels cfg \<and>
     rayleigh_pos g' = rayleigh_pos g + num_channels cfg \<and>
     rayleigh cfg x g = Inr (y, g') \<and>
     length y = length x \<and>
     (\<forall>r<length x. length (y ! r) = num_channels cfg \<and>
        (\<forall>c<num_channels cfg. x ! r ! c = 0 \<or> x ! r ! c = 1 \<longrightarrow>
           y ! r ! c = x ! r ! c * (1 - draw ! c)))"
proof -
  let ?draw = "map (\<lambda>i. beta_variance cfg * rayleigh_src g (rayleigh_pos g + i)) [0..<num_channels cfg]"
  let ?g' = "g\<lparr>rayleigh_pos := rayleigh_pos g + num_channels cfg\<rparr>"
  let ?y = "map (\<lambda>r. map (\<lambda>c.
              x ! r ! c * (1 - x ! r ! c * (beta_variance cfg * rayleigh_src g (rayleigh_pos g + c))))
            [0..<num_channels cfg]) [0..<length x]"
  have d: "np_random_rayleigh (beta_variance cfg) (num_channels cfg) g = Inr (?draw, ?g')"
    using beta_variance_nonneg[OF assms(1)] by (simp add: np_random_rayleigh_def)
  have y: "rayleigh cfg x g = Inr (?y, ?g')" by (rule rayleigh_index_form[OF assms])
  have e: "\<forall>r<length x. length (?y ! r) = num_channels cfg \<and>
        (\<forall>c<num_channels cfg. x ! r ! c = 0 \<or> x ! r ! c = 1 \<longrightarrow>
           ?y ! r ! c = x ! r ! c * (1 - ?draw ! c))"
    by auto
  show ?thesis
    by (rule exI[of _ ?draw], rule exI[of _ ?g'], rule exI[of _ ?y])
       (intro conjI d y e, simp_all)
qed

theorem rayleigh_draw_and_output_witness:
  "signal_at 0 0 (rayleigh source_config [[1, 0]] (const_rng 1 0 0)) =
     Inr (1 - beta_variance source_config)"
proof -
  have sh: "\<forall>row\<in>set [[1, 0 :: real]]. length row = num_channels source_config"
    by (simp add: source_config_fields)
  from rayleigh_draw_and_output[OF valid_source_config sh, of "const_rng 1 0 0"]
  obtain draw g' y where
    d: "np_random_rayleigh (beta_variance source_config) (num_channels source_config)
          (const_rng 1 0 0) = Inr (draw, g')"
    and y: "rayleigh source_config [[1, 0]] (const_rng 1 0 0) = Inr (y, g')"
    and e: "\<forall>r<length [[1, 0 :: real]]. length (y ! r) = num_channels source_config \<and>
        (\<forall>c<num_channels source_config.
           [[1, 0 :: real]] ! r ! c = 0 \<or> [[1, 0 :: real]] ! r ! c = 1 \<longrightarrow>
           y ! r ! c = [[1, 0]] ! r ! c * (1 - draw ! c))"
    by blast
  from d have "draw ! 0 = beta_variance source_config"
    by (auto simp add: np_random_rayleigh_def source_config_fields const_rng_def split: if_splits)
  moreover have "y ! 0 ! 0 = 1 * (1 - draw ! 0)"
    using e[rule_format, of 0, THEN conjunct2, rule_format, of 0]
    by (simp add: source_config_fields)
  ultimately show ?thesis by (simp add: y signal_at_def)
qed

text \<open>
  Counterexample to C1 as stated. On the one-row batch \<open>[[1, 0]]\<close>, with every unit
  Rayleigh variate equal to 1, the first output entry of \<open>rayleigh\<close> is
  \<open>1 - beta_variance\<close>, while the stage the claim describes, with scale
  \<open>sqrt beta_variance\<close>, gives \<open>1 - sqrt beta_variance\<close>.
\<close>

theorem rayleigh_scale_differs_from_spec:
  "signal_at 0 0 (rayleigh source_config [[1, 0]] (const_rng 1 0 0)) \<noteq>
   signal_at 0 0 (rayleigh_spec source_config [[1, 0]] (const_rng 1 0 0))"
proof -
  have sh: "\<forall>row\<in>set [[1, 0 :: real]]. length row = num_channels source_config"
    by (simp add: source_config_fields)
  have l: "signal_at 0 0 (rayleigh source_config [[1, 0]] (const_rng 1 0 0)) =
      Inr (1 - beta_variance source_config)"
    by (subst rayleigh_entry[OF valid_source_config sh])
       (simp_all add: source_config_fields const_rng_def)
  have r: "signal_at 0 0 (rayleigh_spec source_config [[1, 0]] (const_rng 1 0 0)) =
      Inr (1 - sqrt (beta_variance source_config))"
    by (subst rayleigh_spec_entry[OF valid_source_config sh])
       (simp_all add: source_config_fields const_rng_def)
  have "beta_variance source_config < sqrt (beta_variance source_config)"
    using sqrt_beta_variance_source beta_variance_source_pos by simp
  then show ?thesis by (simp add: l r)
qed

subsection \<open>C2: training-time channel against evaluation channel\<close>

text \<open>
  Claim C2 does not hold of the code. The evaluation sweep multiplies a signal entry by
  one minus the fading sample (lines 214--215); the training layer \<open>rayleigh\<close> first
  multiplies the sample by the entry itself (line 68). The theorem evaluates both at
  the entry \<open>1 / 16\<close> with every variate equal to 1, at the 7 dB sweep point, where the
  evaluation noise has the training layer's standard deviation: the training layers
  return \<open>1 / 16 * (1 - 1 / 16 * beta_variance) + sqrt beta_variance\<close>, the evaluation
  channel returns \<open>1 / 16 * (1 - beta_variance) + sqrt beta_variance\<close>.
\<close>

theorem channel_train_differs_from_eval:
  "signal_at 0 0 (channel_layers source_config [[1 / 16, 1 / 16]] (const_rng 1 1 0)) =
     Inr (1 / 16 * (1 - 1 / 16 * beta_variance source_config) + sqrt (beta_variance source_config)) \<and>
   signal_at 0 0 (eval_channel source_config (10 powr (7 / 10))
                    (replicate 50000 (replicate 16 (1 / 16))) (const_rng 1 1 0)) =
     Inr (1 / 16 * (1 - beta_variance source_config) + sqrt (beta_variance source_config)) \<and>
   signal_at 0 0 (channel_layers source_config [[1 / 16, 1 / 16]] (const_rng 1 1 0)) \<noteq>
   signal_at 0 0 (eval_channel source_config (10 powr (7 / 10))
                    (replicate 50000 (replicate 16 (1 / 16))) (const_rng 1 1 0))"
proof -
  have sh: "\<forall>row\<in>set [[1 / 16, 1 / 16 :: real]]. length row = num_channels source_config"
    by (simp add: source_config_fields)
  have l: "signal_at 0 0 (channel_layers source_config [[1 / 16, 1 / 16]] (const_rng 1 1 0)) =
      Inr (1 / 16 * (1 - 1 / 16 * beta_variance source_config) + sqrt (beta_variance source_config))"
    by (subst channel_layers_entry[OF valid_source_config sh])
       (simp_all add: source_config_fields const_rng_def)
  have r: "signal_at 0 0 (eval_channel source_config (10 powr (7 / 10))
                    (replicate 50000 (replicate 16 (1 / 16))) (const_rng 1 1 0)) =
      Inr (1 / 16 * (1 - beta_variance source_config) + sqrt (beta_variance source_config))"
    by (subst eval_channel_entry[OF valid_source_config big_shape(3,1,2)])
       (simp_all add: source_config_fields const_rng_def beta_variance_def Eb_No_def)
  have "1 / 16 * (1 - 1 / 16 * beta_variance source_config) \<noteq>
        1 / 16 * (1 - beta_variance source_config)"
    using beta_variance_source_pos by simp
  then show ?thesis by (simp only: l r) simp
qed

subsection \<open>C4: what the swept SNR scales\<close>

text \<open>
  Claim C4, as amended. At the sweep point \<open>snr_dB\<close>, with \<open>snr = 10 powr (snr_dB / 10)\<close>,
  only the Gaussian noise is scaled to that SNR: it has mean 0 and standard deviation
  \<open>sqrt (1 / (2 * R * snr))\<close>. The fading draw has the scale
  \<open>1 / (2 * R * 10 powr (Eb_No_dB / 10))\<close>, that is \<open>beta_variance\<close> of the design
  \<open>Eb_No_dB\<close>, at every sweep point.
\<close>

theorem eval_noise_scaled_fading_fixed:
  assumes "valid_config cfg" and "0 \<le> size_test_data cfg"
    and "length s = nat (size_test_data cfg)"
    and "\<forall>row\<in>set s. length row = M cfg"
  shows "eval_channel cfg (10 powr (snr_dB / 10)) s g =
    Inr (map (\<lambda>r. map (\<lambda>c.
              s ! r ! c * (1 - 1 / (2 * R cfg * 10 powr (Eb_No_dB cfg / 10))
                                * rayleigh_src g (rayleigh_pos g + c))
              + (0 + sqrt (1 / (2 * R cfg * 10 powr (snr_dB / 10)))
                      * randn_src g (randn_pos g + r * M cfg + c)))
            [0..<M cfg]) [0..<length s],
         g\<lparr>rayleigh_pos := rayleigh_pos g + M cfg,
           randn_pos := randn_pos g + length s * M cfg\<rparr>)"
  using eval_channel_explicit[OF assms, of "10 powr (snr_dB / 10)" g]
  by (simp add: beta_variance_def Eb_No_def)

theorem eval_noise_scaled_fading_fixed_witness:
  "signal_at 0 0 (eval_channel source_config (10 powr (15 / 10))
                    (replicate 50000 (replicate 16 (1 / 16))) (const_rng 1 1 0)) =
   Inr (1 / 16 * (1 - 1 / (2 * R source_config * 10 powr (7 / 10)) * 1)
        + (0 + sqrt (1 / (2 * R source_config * 10 powr (15 / 10))) * 1))"
proof -
  note t = eval_noise_scaled_fading_fixed[OF valid_source_config big_shape(3)
      big_shape(1)[of "1 / 16"] big_shape(2)[of "1 / 16"], where g = "const_rng 1 1 0" and snr_dB = 15]
  have "signal_at 0 0 (eval_channel source_config (10 powr (15 / 10))
                    (replicate 50000 (replicate 16 (1 / 16))) (const_rng 1 1 0)) =
    Inr (replicate 50000 (replicate 16 (1 / 16)) ! 0 ! 0
           * (1 - 1 / (2 * R source_config * 10 powr (Eb_No_dB source_config / 10))
               * rayleigh_src (const_rng 1 1 0) (rayleigh_pos (const_rng 1 1 0) + 0))
         + (0 + sqrt (1 / (2 * R source_config * 10 powr (15 / 10)))
               * randn_src (const_rng 1 1 0) (randn_pos (const_rng 1 1 0) + 0 * M source_config + 0)))"
    by (subst t, subst signal_at_index_form) (simp_all add: source_config_fields)
  then show ?thesis
    by (simp add: source_config_fields const_rng_def)
qed

text \<open>
  Counterexample to C4 as stated. With every unit Rayleigh variate 1 and no noise, the
  entry \<open>1 / 16\<close> has the same faded value at the first (-15 dB) and the last (+15 dB) sweep
  point, and that value is not the one a fading scale \<open>1 / (2 * R * snr)\<close> gives.
\<close>

theorem eval_fading_not_scaled_to_snr:
  "signal_at 0 0 (eval_channel source_config (10 powr (- 15 / 10))
                    (replicate 50000 (replicate 16 (1 / 16))) (const_rng 1 0 0)) =
   signal_at 0 0 (eval_channel source_config (10 powr (15 / 10))
                    (replicate 50000 (replicate 16 (1 / 16))) (const_rng 1 0 0)) \<and>
   signal_at 0 0 (eval_channel source_config (10 powr (15 / 10))
                    (replicate 50000 (replicate 16 (1 / 16))) (const_rng 1 0 0)) \<noteq>
   Inr (1 / 16 * (1 - 1 / (2 * R source_config * 10 powr (15 / 10))))"
proof -
  have e: "signal_at 0 0 (eval_channel source_config snr
                    (replicate 50000 (replicate 16 (1 / 16))) (const_rng 1 0 0)) =
      Inr (1 / 16 * (1 - beta_variance source_config))" for snr
    by (subst eval_channel_entry[OF valid_source_config big_shape(3,1,2)])
       (simp_all add: source_config_fields const_rng_def)
  have "(10::real) powr (7 / 10) < 10 powr (3 / 2)"
    by (rule powr_less_mono) simp_all
  then have "(10::real) powr (7 / 10) \<noteq> 10 powr (3 / 2)"
    by (rule less_imp_neq)
  then have "beta_variance source_config \<noteq> 1 / (2 * R source_config * 10 powr (15 / 10))"
    by (simp add: beta_variance_source R_source_config)
  then show ?thesis by (simp add: e)
qed

subsection \<open>C10: one fading vector per sweep point\<close>

text \<open>
  Claim C10. At a sweep point the channel makes exactly one Rayleigh draw, of length
  \<open>M\<close>, reading \<open>M\<close> cells of the generator; entry \<open>(r, c)\<close> of every row \<open>r\<close> is
  multiplied by one minus the same \<open>fading ! c\<close>. The noise array has one standard
  normal variate per entry, and distinct entries read distinct cells.
\<close>

theorem eval_single_fading_vector:
  assumes "valid_config cfg" and "0 \<le> size_test_data cfg"
    and "length s = nat (size_test_data cfg)"
    and "\<forall>row\<in>set s. length row = M cfg"
  shows "\<exists>fading g1 z g2 out.
     np_random_rayleigh (beta_variance cfg) (M cfg) g = Inr (fading, g1) \<and>
     length fading = M cfg \<and>
     np_random_randn (size_test_data cfg) (M cfg) g1 = Inr (z, g2) \<and>
     eval_channel cfg snr s g = Inr (out, g2) \<and>
     rayleigh_pos g2 = rayleigh_pos g + M cfg \<and>
     randn_pos g2 = randn_pos g + length s * M cfg \<and>
     (\<forall>r<length s. \<forall>c<M cfg.
        z ! r ! c = randn_src g (randn_pos g + (r * M cfg + c)) \<and>
        out ! r ! c = s ! r ! c * (1 - fading ! c) + sqrt (1 / (2 * R cfg * snr)) * z ! r ! c) \<and>
     inj_on (\<lambda>(r, c). r * M cfg + c) ({..<length s} \<times> {..<M cfg})"
proof -
  let ?fad = "map (\<lambda>i. beta_variance cfg * rayleigh_src g (rayleigh_pos g + i)) [0..<M cfg]"
  let ?g1 = "g\<lparr>rayleigh_pos := rayleigh_pos g + M cfg\<rparr>"
  let ?z = "map (\<lambda>r. map (\<lambda>c. randn_src g (randn_pos g + r * M cfg + c)) [0..<M cfg]) [0..<length s]"
  let ?g2 = "g\<lparr>rayleigh_pos := rayleigh_pos g + M cfg, randn_pos := randn_pos g + length s * M cfg\<rparr>"
  let ?out = "map (\<lambda>r. map (\<lambda>c.
              s ! r ! c * (1 - beta_variance cfg * rayleigh_src g (rayleigh_pos g + c))
              + sqrt (1 / (2 * R cfg * snr)) * randn_src g (randn_pos g + r * M cfg + c))
            [0..<M cfg]) [0..<length s]"
  have d: "np_random_rayleigh (beta_variance cfg) (M cfg) g = Inr (?fad, ?g1)"
    using beta_variance_nonneg[OF assms(1)] by (simp add: np_random_rayleigh_def)
  have n: "np_random_randn (size_test_data cfg) (M cfg) ?g1 = Inr (?z, ?g2)"
    using assms(2,3) by (simp add: np_random_randn_def standard_normal_def)
  have e: "eval_channel cfg snr s g = Inr (?out, ?g2)"
    by (rule eval_channel_explicit[OF assms])
  have c: "\<forall>r<length s. \<forall>c<M cfg.
        ?z ! r ! c = randn_src g (randn_pos g + (r * M cfg + c)) \<and>
        ?out ! r ! c = s ! r ! c * (1 - ?fad ! c) + sqrt (1 / (2 * R cfg * snr)) * ?z ! r ! c"
    by (simp add: add.assoc)
  show ?thesis
    apply (rule exI[of _ ?fad], rule exI[of _ ?g1], rule exI[of _ ?z], rule exI[of _ ?g2],
           rule exI[of _ ?out])
    apply (intro conjI d n e c cell_index_inj)
      apply simp_all
    done
qed

theorem eval_single_fading_vector_witness:
  "signal_at 0 1 (eval_channel source_config 1 (replicate 50000 (replicate 16 (1 / 16))) ramp_rng) =
     Inr (1 / 16 * (1 - beta_variance source_config * 1) + sqrt (1 / (2 * R source_config * 1)) * 1) \<and>
   signal_at 1 1 (eval_channel source_config 1 (replicate 50000 (replicate 16 (1 / 16))) ramp_rng) =
     Inr (1 / 16 * (1 - beta_variance source_config * 1) + sqrt (1 / (2 * R source_config * 1)) * 17)"
proof -
  let ?s = "replicate 50000 (replicate 16 (1 / 16 :: real))"
  from eval_single_fading_vector[OF valid_source_config big_shape(3)
      big_shape(1)[of "1 / 16"] big_shape(2)[of "1 / 16"], of ramp_rng 1]
  obtain fading g1 z g2 out where
    a: "np_random_rayleigh (beta_variance source_config) (M source_config) ramp_rng = Inr (fading, g1)"
    and e: "eval_channel source_config 1 ?s ramp_rng = Inr (out, g2)"
    and c: "\<forall>r<length ?s. \<forall>c<M source_config.
        z ! r ! c = randn_src ramp_rng (randn_pos ramp_rng + (r * M source_config + c)) \<and>
        out ! r ! c = ?s ! r ! c * (1 - fading ! c)
          + sqrt (1 / (2 * R source_config * 1)) * z ! r ! c"
    by blast
  from a have f: "fading ! 1 = beta_variance source_config * 1"
    by (simp add: np_random_rayleigh_def source_config_fields ramp_rng_def split: if_splits)
       (auto simp add: ramp_rng_def)
  have "out ! 0 ! 1 = 1 / 16 * (1 - beta_variance source_config * 1) + sqrt (1 / (2 * R source_config * 1)) * 1"
    using c[rule_format, of 0 1] f by (simp add: source_config_fields ramp_rng_def)
  moreover have "out ! 1 ! 1 = 1 / 16 * (1 - beta_variance source_config * 1) + sqrt (1 / (2 * R source_config * 1)) * 17"
    using c[rule_format, of 1 1] f by (simp add: source_config_fields ramp_rng_def)
  ultimately show ?thesis
    by (simp add: e signal_at_def)
qed

subsection \<open>C8: shapes through the training-time channel\<close>

text \<open>
  Claim C8. For a batch of any number of rows with \<open>num_channels\<close> columns, for any
  \<open>num_channels\<close>, the fading stage returns an array of the same shape, the shape
  function of the layer is the identity, and the noise stage returns an array of the
  same shape again.
\<close>

theorem channel_output_shape:
  assumes "valid_config cfg" and "\<forall>row\<in>set x. length row = num_channels cfg"
  shows "\<exists>y g1 w g2.
     rayleigh cfg x g = Inr (y, g1) \<and>
     length y = length x \<and> (\<forall>row\<in>set y. length row = num_channels cfg) \<and>
     rayleigh_shape (length x, num_channels cfg) = (length x, num_channels cfg) \<and>
     GaussianNoise stddev y g1 = (w, g2) \<and>
     length w = length x \<and> (\<forall>row\<in>set w. length row = num_channels cfg)"
proof -
  let ?y = "map (\<lambda>r. map (\<lambda>c.
              x ! r ! c * (1 - x ! r ! c * (beta_variance cfg * rayleigh_src g (rayleigh_pos g + c))))
            [0..<num_channels cfg]) [0..<length x]"
  let ?g1 = "g\<lparr>rayleigh_pos := rayleigh_pos g + num_channels cfg\<rparr>"
  have y: "\<forall>row\<in>set ?y. length row = num_channels cfg" by auto
  have r: "rayleigh cfg x g = Inr (?y, ?g1)" by (rule rayleigh_index_form[OF assms])
  note n = GaussianNoise_index_form[OF y, of stddev ?g1]
  show ?thesis
    apply (rule exI[of _ ?y], rule exI[of _ ?g1])
    apply (simp only: n r)
    apply (auto simp add: rayleigh_shape_def)
    done
qed

theorem channel_output_shape_witness:
  "\<exists>y g1 w g2.
     rayleigh source_config [[2, 2], [3, 3], [4, 4]] ramp_rng = Inr (y, g1) \<and>
     GaussianNoise (sqrt (beta_variance source_config)) y g1 = (w, g2) \<and>
     map length y = [2, 2, 2] \<and> map length w = [2, 2, 2]"
proof -
  have sh: "\<forall>row\<in>set [[2, 2], [3, 3], [4, 4 :: real]]. length row = num_channels source_config"
    by (simp add: source_config_fields)
  from channel_output_shape[OF valid_source_config sh, of ramp_rng "sqrt (beta_variance source_config)"]
  obtain y g1 w g2 where
    r: "rayleigh source_config [[2, 2], [3, 3], [4, 4]] ramp_rng = Inr (y, g1)"
    and n: "GaussianNoise (sqrt (beta_variance source_config)) y g1 = (w, g2)"
    and y: "length y = 3" "\<forall>row\<in>set y. length row = 2"
    and w: "length w = 3" "\<forall>row\<in>set w. length row = 2"
    by (auto simp add: source_config_fields)
  have "map length y = replicate (length y) 2" using y(2) by (simp add: map_replicate_const[symmetric])
  then have ly: "map length y = [2, 2, 2]" using y(1) by (simp add: eval_nat_numeral)
  have "map length w = replicate (length w) 2" using w(2) by (simp add: map_replicate_const[symmetric])
  then have lw: "map length w = [2, 2, 2]" using w(1) by (simp add: eval_nat_numeral)
  show ?thesis
    by (rule exI[of _ y], rule exI[of _ g1], rule exI[of _ w], rule exI[of _ g2])
       (simp only: r n ly lw simp_thms)
qed

subsection \<open>C6: rows of a generated data set\<close>

text \<open>
  Claim C6. For every size (in particular every positive one) \<open>create_data_set\<close>
  returns a data set of that many rows, and every row has length \<open>M\<close> with exactly one
  entry equal to 1 and all others equal to 0.
\<close>

theorem create_data_set_one_hot:
  assumes "0 < M cfg"
  shows "\<exists>ds g'. create_data_set cfg size' g = Inr (ds, g') \<and>
           length ds = nat size' \<and>
           (\<forall>row\<in>set ds. length row = M cfg \<and>
              (\<exists>i<M cfg. row ! i = 1 \<and> (\<forall>j<M cfg. j \<noteq> i \<longrightarrow> row ! j = 0)))"
proof -
  let ?ds = "map (\<lambda>i. (np_zeros (M cfg))[randint_src g (randint_pos g + i) mod M cfg := 1]) [0..<nat size']"
  have e: "create_data_set cfg size' g = Inr (?ds, g\<lparr>randint_pos := randint_pos g + nat size'\<rparr>)"
    by (simp add: create_data_set_def create_rows_explicit[OF assms])
  have "\<forall>row\<in>set ?ds. length row = M cfg \<and>
              (\<exists>i<M cfg. row ! i = 1 \<and> (\<forall>j<M cfg. j \<noteq> i \<longrightarrow> row ! j = 0))"
  proof
    fix row assume "row \<in> set ?ds"
    then obtain t where row: "row = (np_zeros (M cfg))[randint_src g (randint_pos g + t) mod M cfg := 1]"
      by auto
    let ?i = "randint_src g (randint_pos g + t) mod M cfg"
    have i: "?i < M cfg" using assms by simp
    show "length row = M cfg \<and>
              (\<exists>i<M cfg. row ! i = 1 \<and> (\<forall>j<M cfg. j \<noteq> i \<longrightarrow> row ! j = 0))"
      unfolding row using np_zeros_update[OF i] i by blast
  qed
  then show ?thesis using e by simp
qed

theorem create_data_set_one_hot_witness:
  "create_data_set small_config 3 ramp_rng =
     Inr ([[1, 0], [0, 1], [1, 0]], ramp_rng\<lparr>randint_pos := 3\<rparr>) \<and>
   (\<exists>ds g'. create_data_set small_config 3 ramp_rng = Inr (ds, g') \<and> length ds = 3 \<and>
       (\<forall>row\<in>set ds. length row = 2 \<and>
          (\<exists>i<2. row ! i = 1 \<and> (\<forall>j<2. j \<noteq> i \<longrightarrow> row ! j = 0))))"
proof -
  have m: "0 < M small_config" by (simp add: small_config_fields)
  have v: "create_data_set small_config 3 ramp_rng =
     Inr ([[1, 0], [0, 1], [1, 0]], ramp_rng\<lparr>randint_pos := 3\<rparr>)"
    by (simp add: create_data_set_def eval_nat_numeral np_random_randint_def np_zeros_def
        small_config_def ramp_rng_def)
  show ?thesis
    using create_data_set_one_hot[OF m, of 3 ramp_rng] v
    by (simp add: small_config_fields)
qed

subsection \<open>C9: the count passed to the message source\<close>

text \<open>
  Claim C9, as amended. \<open>create_data_set\<close> does not validate its count: it never
  fails on it. For a positive count it returns exactly that many samples, and for a
  count that is zero or negative it returns the empty data set and leaves the generator
  as it was.
\<close>

theorem create_data_set_no_validation:
  assumes "0 < M cfg"
  shows "\<exists>ds g'. create_data_set cfg size' g = Inr (ds, g') \<and>
           int (length ds) = max 0 size' \<and>
           (size' \<le> 0 \<longrightarrow> ds = [] \<and> g' = g)"
  by (simp add: create_data_set_def create_rows_explicit[OF assms])

theorem create_data_set_no_validation_witness:
  "(\<exists>ds g'. create_data_set source_config 5 ramp_rng = Inr (ds, g') \<and> int (length ds) = 5) \<and>
   (\<exists>ds g'. create_data_set source_config (- 1) ramp_rng = Inr (ds, g') \<and> ds = [] \<and> g' = ramp_rng)"
proof -
  have m: "0 < M source_config" by (simp add: source_config_fields)
  show ?thesis
    using create_data_set_no_validation[OF m, of 5 ramp_rng]
      create_data_set_no_validation[OF m, of "- 1" ramp_rng]
    by simp
qed

text \<open>
  Counterexample to C9 as stated. For the counts 0 and -3 the call returns the empty
  data set; no error is raised.
\<close>

theorem create_data_set_nonpositive_count:
  "create_data_set source_config 0 (const_rng 0 0 0) = Inr ([], const_rng 0 0 0) \<and>
   create_data_set source_config (- 3) (const_rng 0 0 0) = Inr ([], const_rng 0 0 0)"
  by (simp add: create_data_set_def)

subsection \<open>C3: the steps of one sweep point\<close>

text \<open>
  Claim C3. At a sweep point the loop body takes the predictions of the network on the
  test set as the signal (no argmax is taken), multiplies entry \<open>(r, c)\<close> by one minus
  the fading of column \<open>c\<close>, adds the noise of that entry, rounds the sum to the nearest
  integer, compares it with the test label at \<open>(r, c)\<close>, and returns the fraction of
  the entries that disagree. The rounding step returns, for every real \<open>x\<close>, an integer
  at distance at most \<open>1 / 2\<close> from \<open>x\<close>, and the even one when \<open>x\<close> lies halfway
  between two integers.
\<close>

theorem eval_point_steps:
  assumes "valid_config cfg" and "0 < size_test_data cfg"
    and "length (predict test_data) = nat (size_test_data cfg)"
    and "\<forall>row\<in>set (predict test_data). length row = M cfg"
    and "length test_data = nat (size_test_data cfg)"
    and "\<forall>row\<in>set test_data. length row = M cfg"
  shows "eval_point cfg predict test_data snr_dB g =
    Inr (Some (real (length (filter (\<lambda>e. e) (concat
             (map (\<lambda>r. map (\<lambda>c.
                np_round (predict test_data ! r ! c
                            * (1 - beta_variance cfg * rayleigh_src g (rayleigh_pos g + c))
                          + sqrt (1 / (2 * R cfg * 10 powr (snr_dB / 10)))
                            * randn_src g (randn_pos g + r * M cfg + c))
                \<noteq> test_data ! r ! c) [0..<M cfg]) [0..<nat (size_test_data cfg)]))))
               / real (nat (size_test_data cfg) * M cfg)),
         g\<lparr>rayleigh_pos := rayleigh_pos g + M cfg,
           randn_pos := randn_pos g + nat (size_test_data cfg) * M cfg\<rparr>) \<and>
    (\<forall>x. \<exists>n::int. np_round x = real_of_int n \<and> \<bar>x - real_of_int n\<bar> \<le> 1 / 2 \<and>
            (\<bar>x - real_of_int n\<bar> = 1 / 2 \<longrightarrow> even n))"
  using eval_point_count[where predict = predict and test_data = test_data, OF assms, of snr_dB g]
    np_round_nearest by blast

text \<open>
  The sweep point at 0 dB of the unit-deviation configuration, on two test samples.
  The faded predictions are \<open>9 / 20, 1 / 20\<close> and \<open>1 / 20, 9 / 20\<close>; with the noise
  \<open>1 / 10, 9 / 20\<close> and \<open>2 / 5, 41 / 20\<close> the sums are \<open>11 / 20, 1 / 2\<close> and
  \<open>9 / 20, 5 / 2\<close>, rounded to \<open>1, 0\<close> and \<open>0, 2\<close>. Against the labels
  \<open>1, 0\<close> and \<open>0, 1\<close> one entry of four disagrees.
\<close>

theorem eval_point_steps_witness:
  "eval_point unit_config (\<lambda>_. [[9 / 10, 1 / 10], [1 / 10, 9 / 10]]) [[1, 0], [0, 1]] 0
     (tape_rng (1 / 2) [1 / 10, 9 / 20, 2 / 5, 41 / 20]) =
     Inr (Some (1 / 4),
          (tape_rng (1 / 2) [1 / 10, 9 / 20, 2 / 5, 41 / 20])\<lparr>rayleigh_pos := 2, randn_pos := 4\<rparr>) \<and>
   np_round (9 / 10 * (1 - 1 / 2) + 1 / 10) = 1 \<and>
   np_round (1 / 10 * (1 - 1 / 2) + 9 / 20) = 0 \<and>
   np_round (1 / 10 * (1 - 1 / 2) + 2 / 5) = 0 \<and>
   np_round (9 / 10 * (1 - 1 / 2) + 41 / 20) = 2"
proof -
  have sh: "length ((\<lambda>_. [[9 / 10, 1 / 10], [1 / 10, 9 / 10 :: real]]) [[1, 0], [0, 1 :: real]])
        = nat (size_test_data unit_config)"
    "\<forall>row\<in>set ((\<lambda>_. [[9 / 10, 1 / 10], [1 / 10, 9 / 10 :: real]]) [[1, 0], [0, 1 :: real]]).
        length row = M unit_config"
    "length [[1, 0], [0, 1 :: real]] = nat (size_test_data unit_config)"
    "\<forall>row\<in>set [[1, 0], [0, 1 :: real]]. length row = M unit_config"
    "0 < size_test_data unit_config"
    by (simp_all add: unit_config_fields)
  note t = eval_point_steps[where predict = "\<lambda>_. [[9 / 10, 1 / 10], [1 / 10, 9 / 10]]"
        and test_data = "[[1, 0], [0, 1]]" and snr_dB = 0
        and g = "tape_rng (1 / 2) [1 / 10, 9 / 20, 2 / 5, 41 / 20]",
        OF valid_unit_config sh(5,1,2,3,4), THEN conjunct1]
  have a: "eval_point unit_config (\<lambda>_. [[9 / 10, 1 / 10], [1 / 10, 9 / 10]]) [[1, 0], [0, 1]] 0
     (tape_rng (1 / 2) [1 / 10, 9 / 20, 2 / 5, 41 / 20]) =
     Inr (Some (1 / 4),
          (tape_rng (1 / 2) [1 / 10, 9 / 20, 2 / 5, 41 / 20])\<lparr>rayleigh_pos := 2, randn_pos := 4\<rparr>)"
    using t
    by (simp add: unit_config_fields beta_variance_unit_config R_unit_config tape_rng_def
        eval_nat_numeral np_round_values)
  have b: "np_round (9 / 10 * (1 - 1 / 2) + 1 / 10) = 1"
    "np_round (1 / 10 * (1 - 1 / 2) + 9 / 20) = 0"
    "np_round (1 / 10 * (1 - 1 / 2) + 2 / 5) = 0"
    "np_round (9 / 10 * (1 - 1 / 2) + 41 / 20) = 2"
    by (simp_all add: np_round_values)
  show ?thesis using a b by simp
qed

subsection \<open>C5: the BER curve\<close>

text \<open>
  Claim C5. The sweep returns one pair per sweep point, \<open>2 * (end - start) + 1\<close> of
  them (61 for -15 dB to +15 dB); the swept values advance in steps of 0.5 dB from
  \<open>start\<close> and are strictly ascending; every error rate is a number between 0 and 1;
  and the error rate of pair \<open>i\<close> is what the loop body returns for the swept value of
  pair \<open>i\<close>, run on the generator as the \<open>i\<close> earlier points left it.
\<close>

theorem evaluation_sweep_curve:
  assumes "valid_config cfg" and "0 < size_test_data cfg" and "start cfg \<le> end_dB cfg"
    and "length (predict test_data) = nat (size_test_data cfg)"
    and "\<forall>row\<in>set (predict test_data). length row = M cfg"
    and "length test_data = nat (size_test_data cfg)"
    and "\<forall>row\<in>set test_data. length row = M cfg"
  shows "\<exists>curve g'.
     evaluation_sweep cfg predict test_data g = Inr (curve, g') \<and>
     int (length curve) = 2 * (end_dB cfg - start cfg) + 1 \<and>
     map fst curve = map (\<lambda>i. real_of_int (start cfg) + real i / 2) [0..<length curve] \<and>
     sorted_wrt (<) (map fst curve) \<and>
     (\<forall>p\<in>set curve. \<exists>b. snd p = Some b \<and> 0 \<le> b \<and> b \<le> 1) \<and>
     (\<forall>i<length curve. \<exists>g''.
        eval_point cfg predict test_data (fst (curve ! i))
          (g\<lparr>rayleigh_pos := rayleigh_pos g + i * M cfg,
             randn_pos := randn_pos g + i * (nat (size_test_data cfg) * M cfg)\<rparr>)
        = Inr (snd (curve ! i), g''))"
proof -
  let ?n = "nat (2 * (end_dB cfg - start cfg) + 1)"
  let ?rs = "map (\<lambda>i. real_of_int (start cfg) + real i / 2) [0..<?n]"
  let ?ber = "replicate (length ?rs) (Some (0::real))"
  let ?adv = "\<lambda>i. g\<lparr>rayleigh_pos := rayleigh_pos g + i * M cfg,
             randn_pos := randn_pos g + i * (nat (size_test_data cfg) * M cfg)\<rparr>"
  have l: "np_linspace (real_of_int (start cfg)) (real_of_int (end_dB cfg))
             (2 * (end_dB cfg - start cfg) + 1) = Inr ?rs"
    by (rule np_linspace_half_steps[OF assms(3)])
  have b1: "length ?rs \<le> length ?rs" "length ?rs \<le> length ?ber" "0 + length ?rs = length ?rs"
    by simp_all
  from sweep_loop_entries[where predict = predict and test_data = test_data,
      OF assms(1,2,4-7) b1, of g]
  obtain ber' where s: "sweep_loop cfg predict test_data ?rs [0..<length ?rs] ?ber g =
        Inr (ber', ?adv (length ?rs))"
    and len: "length ber' = length ?ber"
    and pts: "\<forall>j<length ?rs. \<exists>g''. eval_point cfg predict test_data (?rs ! (0 + j)) (?adv j)
            = Inr (ber' ! (0 + j), g'')"
    by blast
  let ?curve = "zip ?rs ber'"
  have e: "evaluation_sweep cfg predict test_data g = Inr (?curve, ?adv (length ?rs))"
    by (simp only: evaluation_sweep_def l Let_def sum.case s prod.case)
  have len2: "length ?curve = ?n" using len by simp
  have f: "map fst ?curve = ?rs" using len by simp
  have c1: "int (length ?curve) = 2 * (end_dB cfg - start cfg) + 1"
    unfolding len2 using assms(3) by simp
  have c2: "map fst ?curve =
      map (\<lambda>i. real_of_int (start cfg) + real i / 2) [0..<length ?curve]"
    unfolding len2 f ..
  have c3: "sorted_wrt (<) (map fst ?curve)"
    unfolding f by (rule half_steps_ascending)
  have c5: "\<forall>i<length ?curve. \<exists>g''.
        eval_point cfg predict test_data (fst (?curve ! i)) (?adv i) = Inr (snd (?curve ! i), g'')"
  proof (intro allI impI)
    fix i assume "i < length ?curve"
    then have i: "i < length ?rs" "i < length ber'" using len by simp_all
    from pts[rule_format, OF i(1)] obtain g'' where
      "eval_point cfg predict test_data (?rs ! i) (?adv i) = Inr (ber' ! i, g'')" by auto
    moreover have "?curve ! i = (?rs ! i, ber' ! i)" using i by (simp only: nth_zip)
    ultimately show "\<exists>g''.
        eval_point cfg predict test_data (fst (?curve ! i)) (?adv i) = Inr (snd (?curve ! i), g'')"
      by (simp only: fst_conv snd_conv) blast
  qed
  have c4: "\<forall>p\<in>set ?curve. \<exists>b. snd p = Some b \<and> 0 \<le> b \<and> b \<le> 1"
  proof
    fix p assume "p \<in> set ?curve"
    then obtain i where i: "i < length ?curve" and p: "p = ?curve ! i"
      by (metis in_set_conv_nth)
    from c5[rule_format, OF i] obtain g'' where
      a: "eval_point cfg predict test_data (fst p) (?adv i) = Inr (snd p, g'')"
      unfolding p by blast
    from eval_point_total[where predict = predict and test_data = test_data,
        OF assms(1,2,4-7), of "fst p" "?adv i"]
    obtain b g3 where "eval_point cfg predict test_data (fst p) (?adv i) = Inr (Some b, g3)"
      and "0 \<le> b" "b \<le> 1" by blast
    then show "\<exists>b. snd p = Some b \<and> 0 \<le> b \<and> b \<le> 1" using a by simp
  qed
  show ?thesis
    by (rule exI[of _ ?curve], rule exI[of _ "?adv (length ?rs)"]) (intro conjI e c1 c2 c3 c4 c5)
qed

theorem evaluation_sweep_curve_witness:
  "\<exists>curve g'.
     evaluation_sweep source_config (\<lambda>_. replicate 50000 (replicate 16 (1 / 16)))
       (replicate 50000 (1 # replicate 15 0)) ramp_rng = Inr (curve, g') \<and>
     length curve = 61 \<and>
     fst (curve ! 0) = - 15 \<and> fst (curve ! 44) = 7 \<and> fst (curve ! 60) = 15"
proof -
  have sh: "0 < size_test_data source_config" "start source_config \<le> end_dB source_config"
    by (simp_all add: source_config_fields)
  have lb: "length (replicate 50000 (1 # replicate 15 (0::real))) = nat (size_test_data source_config)"
    "\<forall>row\<in>set (replicate 50000 (1 # replicate 15 (0::real))). length row = M source_config"
    by (simp_all add: source_config_fields)
  from evaluation_sweep_curve[where predict = "\<lambda>_. replicate 50000 (replicate 16 (1 / 16))"
      and test_data = "replicate 50000 (1 # replicate 15 0)" and g = ramp_rng,
      OF valid_source_config sh big_shape(1,2) lb]
  obtain curve g' where
    e: "evaluation_sweep source_config (\<lambda>_. replicate 50000 (replicate 16 (1 / 16)))
       (replicate 50000 (1 # replicate 15 0)) ramp_rng = Inr (curve, g')"
    and l: "int (length curve) = 2 * (end_dB source_config - start source_config) + 1"
    and m: "map fst curve =
        map (\<lambda>i. real_of_int (start source_config) + real i / 2) [0..<length curve]"
    by blast
  have len: "length curve = 61" using l by (simp add: source_config_fields)
  have nth: "fst (curve ! i) = real_of_int (start source_config) + real i / 2" if "i < 61" for i
  proof -
    have "fst (curve ! i) = map fst curve ! i" using that len by simp
    also have "\<dots> = real_of_int (start source_config) + real i / 2"
      unfolding m using that len by simp
    finally show ?thesis .
  qed
  have "fst (curve ! 0) = - 15" "fst (curve ! 44) = 7" "fst (curve ! 60) = 15"
    using nth[of 0] nth[of 44] nth[of 60] by (simp_all add: source_config_fields)
  then show ?thesis using e len by blast
qed

end
